theory Spec2Isabelle
  imports Main
begin

section \<open>Data model of \<^verbatim>\<open>src/account.ts\<close>\<close>

text \<open>
  \<^verbatim>\<open>Numeric\<close> is \<^verbatim>\<open>number | bigint\<close>; both are modelled as integers (a JavaScript
  number that is not an integer is outside the model). Such a value is falsy exactly
  when it is zero. \<^verbatim>\<open>BigNumberish\<close> is \<^verbatim>\<open>string | number | BN\<close>: the constructor
  records which of the three the code pushed.
\<close>

type_synonym Numeric = int

datatype BigNumberish = Num int | Str string | BN int

type_synonym RawCalldata = "BigNumberish list"

type_synonym StringMap = "(string \<times> Numeric) list"

datatype Error =
    UnsupportedOverrideError
  | KeyMismatchError
  | CalldataEncodingError
  | GuardianUnavailableError
  | SyntaxError
  | TypeError
  | ExternalError string

record StarknetContract =
  address :: string

record CallParameters =
  toContract :: StarknetContract
  functionName :: string
  calldata :: "StringMap option"

text \<open>The type \<^verbatim>\<open>Call\<close> of the starknet library; its field \<^verbatim>\<open>calldata\<close> is \<open>Call_calldata\<close>.\<close>

record Call =
  contractAddress :: string
  entrypoint :: string
  Call_calldata :: RawCalldata

record ExecuteCallParameters =
  to :: int
  selector :: int
  data_offset :: nat
  data_len :: nat

text \<open>The object \<^verbatim>\<open>args\<close> built by \<^verbatim>\<open>handleMultiInteract\<close>: \<^verbatim>\<open>{call_array, calldata, nonce}\<close>.\<close>

record ExecuteArgs =
  call_array :: "ExecuteCallParameters list"
  args_calldata :: RawCalldata
  args_nonce :: string

text \<open>\<^verbatim>\<open>InteractOptions\<close>: every field is optional; \<open>None\<close> is an absent field.\<close>

record InteractOptions =
  maxFee :: "Numeric option"
  nonce :: "Numeric option"
  signature :: "Numeric list option"
  rawOutput :: "bool option"

datatype InteractChoice = INVOKE | CALL | ESTIMATE_FEE

datatype Response = TxHash string | CallResponse "string list" | FeeEstimation int string

datatype KeyPair = KeyPair int

record HardhatRuntimeEnvironment =
  starknetChainId :: string

text \<open>
  The fields of the abstract class \<^verbatim>\<open>Account\<close> and of its extension \<^verbatim>\<open>ArgentAccount\<close>.
  A key pair is a nullable reference: \<^verbatim>\<open>ArgentAccount.getAccountFromAddress\<close> passes
  \<^verbatim>\<open>null\<close> for the guardian's.
\<close>

record Account =
  starknetContract :: StarknetContract
  privateKey :: string
  publicKey :: string
  keyPair :: "KeyPair option"
  hre :: HardhatRuntimeEnvironment

record ArgentAccount = Account +
  guardianPublicKey :: string
  guardianPrivateKey :: string
  guardianKeyPair :: "KeyPair option"

datatype AccountImpl = OpenZeppelin Account | Argent ArgentAccount

subsection \<open>Collaborators\<close>

text \<open>
  Everything \<^verbatim>\<open>account.ts\<close> imports and does not define is a parameter: the methods of
  \<^verbatim>\<open>StarknetContract\<close> (\<^verbatim>\<open>adaptInput\<close>, \<^verbatim>\<open>adaptOutput\<close>, \<^verbatim>\<open>call\<close> and the three
  interaction commands), the hash functions and the key functions of the starknet
  library, JavaScript's \<^verbatim>\<open>BigInt\<close> on strings (\<open>None\<close> is its \<^verbatim>\<open>SyntaxError\<close>), the
  constants \<^verbatim>\<open>TransactionHashPrefix.INVOKE\<close> and \<^verbatim>\<open>choice.transactionVersion\<close>, and the
  artifact and factory functions of the plugin. \<open>callContract c f field\<close> is the field
  \<open>field\<close> of the response of \<^verbatim>\<open>c.call(f)\<close>.
\<close>

record Env =
  adaptInput :: "StarknetContract \<Rightarrow> string \<Rightarrow> StringMap option \<Rightarrow> Error + RawCalldata"
  adaptOutput :: "StarknetContract \<Rightarrow> string \<Rightarrow> string \<Rightarrow> Error + StringMap"
  callContract :: "StarknetContract \<Rightarrow> string \<Rightarrow> string \<Rightarrow> Error + int"
  contractInteractor ::
    "InteractChoice \<Rightarrow> StarknetContract \<Rightarrow> string \<Rightarrow> ExecuteArgs \<Rightarrow> InteractOptions \<Rightarrow> Error + Response"
  parseMulticallOutput :: "string list \<Rightarrow> CallParameters list \<Rightarrow> Error + StringMap list"
  starknetKeccak :: "string \<Rightarrow> int"
  getSelectorFromName :: "string \<Rightarrow> string"
  computeHashOnElements :: "BigNumberish list \<Rightarrow> string"
  hashMulticall :: "string \<Rightarrow> Call list \<Rightarrow> string \<Rightarrow> string \<Rightarrow> string \<Rightarrow> string"
  BigInt :: "string \<Rightarrow> int option"
  TransactionHashPrefix_INVOKE :: BigNumberish
  transactionVersion :: "InteractChoice \<Rightarrow> Numeric"
  ellipticCurve_sign :: "KeyPair \<Rightarrow> string \<Rightarrow> int \<times> int"
  toBN_hex :: "string \<Rightarrow> int"
  getKeyPair :: "int \<Rightarrow> KeyPair"
  getStarkKey :: "KeyPair \<Rightarrow> string"
  handleAccountContractArtifacts ::
    "string \<Rightarrow> string \<Rightarrow> string \<Rightarrow> HardhatRuntimeEnvironment \<Rightarrow> Error + string"
  getContractFactory :: "HardhatRuntimeEnvironment \<Rightarrow> string \<Rightarrow> Error + string"
  getContractAt :: "string \<Rightarrow> string \<Rightarrow> Error + StarknetContract"

subsection \<open>Objects and collaborator calls\<close>

text \<open>
  Options objects are passed by reference and \<^verbatim>\<open>multiInteract\<close> writes to one, so they
  live in a store: a reference is an index into \<open>heap\<close>, and a new object is appended.
  \<open>trace\<close> records, in order, every call of a method of a \<^verbatim>\<open>StarknetContract\<close>.
\<close>

datatype Event =
    AdaptInput string string
  | AdaptOutput string string
  | ContractCall string string
  | Interact InteractChoice string string ExecuteArgs InteractOptions

record State =
  heap :: "InteractOptions list"
  trace :: "Event list"

definition alloc :: "InteractOptions \<Rightarrow> State \<Rightarrow> nat \<times> State" where
  "alloc obj s = (length (heap s), s\<lparr>heap := heap s @ [obj]\<rparr>)"

definition deref :: "nat \<Rightarrow> State \<Rightarrow> InteractOptions" where
  "deref r s = heap s ! r"

definition assign :: "nat \<Rightarrow> (InteractOptions \<Rightarrow> InteractOptions) \<Rightarrow> State \<Rightarrow> State" where
  "assign r f s = s\<lparr>heap := (heap s)[r := f (heap s ! r)]\<rparr>"

definition emit :: "Event \<Rightarrow> State \<Rightarrow> State" where
  "emit e s = s\<lparr>trace := trace s @ [e]\<rparr>"

definition emptyOptions :: InteractOptions where
  "emptyOptions = \<lparr>maxFee = None, nonce = None, signature = None, rawOutput = None\<rparr>"

text \<open>A parameter \<^verbatim>\<open>options = {}\<close>: an absent argument is a new empty object.\<close>

definition defaultOptions :: "nat option \<Rightarrow> State \<Rightarrow> nat \<times> State" where
  "defaultOptions options s = (case options of None \<Rightarrow> alloc emptyOptions s | Some r \<Rightarrow> (r, s))"

text \<open>
  \<^verbatim>\<open>copyWithBigint\<close> is imported from \<^verbatim>\<open>./utils\<close>, which is not among the sources: as
  its name says, it returns a new object with the fields of its argument.
\<close>

definition copyWithBigint :: "nat \<Rightarrow> State \<Rightarrow> nat \<times> State" where
  "copyWithBigint r s = alloc (deref r s) s"

section \<open>Number formatting\<close>

text \<open>
  \<^verbatim>\<open>n.toString(radix)\<close> on an integer: the digits of the absolute value, most
  significant first, after a minus sign when \<open>n\<close> is negative.
\<close>

definition digitChar :: "nat \<Rightarrow> char" where
  "digitChar d = ''0123456789abcdef'' ! d"

function digits :: "nat \<Rightarrow> nat \<Rightarrow> string" where
  "digits radix n =
     (if radix < 2 \<or> n < radix then [digitChar n]
      else digits radix (n div radix) @ [digitChar (n mod radix)])"
  by pat_completeness auto
termination
  by (relation "measure (\<lambda>(radix, n). n)") auto

declare digits.simps [simp del]

definition toString :: "nat \<Rightarrow> int \<Rightarrow> string" where
  "toString radix n =
     (if n < 0 then CHR ''-'' # digits radix (nat (- n)) else digits radix (nat n))"

text \<open>\<^verbatim>\<open>Buffer.from(chainId).toString("hex")\<close>: two hexadecimal digits for each byte.\<close>

definition hexOfBytes :: "string \<Rightarrow> string" where
  "hexOfBytes bs = concat (map (\<lambda>c. [digitChar (of_char c div 16), digitChar (of_char c mod 16)]) bs)"

text \<open>\<^verbatim>\<open>response.join(" ")\<close>.\<close>

fun join :: "string \<Rightarrow> string list \<Rightarrow> string" where
  "join sep [] = []"
| "join sep [x] = x"
| "join sep (x # y # ys) = x @ sep @ join sep (y # ys)"

section \<open>The variants' methods\<close>

fun this_starknetContract :: "AccountImpl \<Rightarrow> StarknetContract" where
  "this_starknetContract (OpenZeppelin a) = starknetContract a"
| "this_starknetContract (Argent a) = starknetContract a"

fun getExecutionFunctionName :: "AccountImpl \<Rightarrow> string" where
  "getExecutionFunctionName (OpenZeppelin a) = ''__execute__''"
| "getExecutionFunctionName (Argent a) = ''__execute__''"

fun hasRawOutput :: "AccountImpl \<Rightarrow> bool" where
  "hasRawOutput (OpenZeppelin a) = False"
| "hasRawOutput (Argent a) = True"

text \<open>
  \<^verbatim>\<open>getNonce\<close>: \<^verbatim>\<open>this.starknetContract.call("get_nonce")\<close>, of which the OpenZeppelin
  variant reads the field \<^verbatim>\<open>res\<close> and the Argent variant the field \<^verbatim>\<open>nonce\<close>.
\<close>

fun getNonce :: "Env \<Rightarrow> AccountImpl \<Rightarrow> State \<Rightarrow> (Error + int) \<times> State" where
  "getNonce env (OpenZeppelin a) s =
     (callContract env (starknetContract a) ''get_nonce'' ''res'',
      emit (ContractCall (address (starknetContract a)) ''get_nonce'') s)"
| "getNonce env (Argent a) s =
     (callContract env (starknetContract a) ''get_nonce'' ''nonce'',
      emit (ContractCall (address (starknetContract a)) ''get_nonce'') s)"

subsection \<open>Message hash\<close>

definition OpenZeppelinAccount_getMessageHash ::
    "Env \<Rightarrow> Account \<Rightarrow> string \<Rightarrow> Call list \<Rightarrow> string \<Rightarrow> string \<Rightarrow> string \<Rightarrow> Error + string" where
  "OpenZeppelinAccount_getMessageHash env this accountAddress callArray nonceS maxFeeS version =
     Inr (hashMulticall env accountAddress callArray nonceS maxFeeS version)"

text \<open>
  The \<^verbatim>\<open>forEach\<close> of \<^verbatim>\<open>ArgentAccount.getMessageHash\<close>, with its two arrays
  \<^verbatim>\<open>hashable\<close> and \<^verbatim>\<open>rawCalldata\<close> as accumulators.
\<close>

fun hashable_forEach ::
    "Env \<Rightarrow> Call list \<Rightarrow> BigNumberish list \<Rightarrow> RawCalldata \<Rightarrow> BigNumberish list \<times> RawCalldata" where
  "hashable_forEach env [] hashable rawCalldata = (hashable, rawCalldata)"
| "hashable_forEach env (c # cs) hashable rawCalldata =
     hashable_forEach env cs
       (hashable @
          [Str (contractAddress c),
           BN (starknetKeccak env (entrypoint c)),
           Num (int (length rawCalldata)),
           Num (int (length (Call_calldata c)))])
       (rawCalldata @ Call_calldata c)"

text \<open>The array \<^verbatim>\<open>hashable\<close> as \<^verbatim>\<open>computeHashOnElements\<close> receives it.\<close>

definition ArgentAccount_hashable :: "Env \<Rightarrow> Call list \<Rightarrow> string \<Rightarrow> BigNumberish list" where
  "ArgentAccount_hashable env callArray nonceS =
     (case hashable_forEach env callArray [Num (int (length callArray))] [] of
        (hashable, rawCalldata) \<Rightarrow>
          hashable @ [Num (int (length rawCalldata))] @ rawCalldata @ [Str nonceS])"

definition ArgentAccount_getMessageHash ::
    "Env \<Rightarrow> ArgentAccount \<Rightarrow> string \<Rightarrow> Call list \<Rightarrow> string \<Rightarrow> string \<Rightarrow> string \<Rightarrow> Error + string" where
  "ArgentAccount_getMessageHash env this accountAddress callArray nonceS maxFeeS version =
     (let chainId = starknetChainId (hre this) in
      case BigInt env (''0x'' @ hexOfBytes chainId) of
        None \<Rightarrow> Inl SyntaxError
      | Some c \<Rightarrow>
          let adaptedChainId = toString 10 c;
              calldataHash = computeHashOnElements env (ArgentAccount_hashable env callArray nonceS)
          in Inr (computeHashOnElements env
                [TransactionHashPrefix_INVOKE env,
                 Str version,
                 Str accountAddress,
                 Str (getSelectorFromName env (getExecutionFunctionName (Argent this))),
                 Str calldataHash,
                 Str maxFeeS,
                 Str adaptedChainId]))"

fun getMessageHash ::
    "Env \<Rightarrow> AccountImpl \<Rightarrow> string \<Rightarrow> Call list \<Rightarrow> string \<Rightarrow> string \<Rightarrow> string \<Rightarrow> Error + string" where
  "getMessageHash env (OpenZeppelin a) = OpenZeppelinAccount_getMessageHash env a"
| "getMessageHash env (Argent a) = ArgentAccount_getMessageHash env a"

subsection \<open>Signatures\<close>

text \<open>
  Modelled from the spec: \<^verbatim>\<open>signMultiCall\<close> is imported from \<^verbatim>\<open>./account-utils\<close>, which
  is not among the sources. The spec gives a signature as two field elements for each
  signing party (r, s), computed over the message hash with the party's key pair, and
  says that signing with a null key pair fails with \<^verbatim>\<open>GuardianUnavailableError\<close>
  rather than producing a malformed signature.
\<close>

definition signMultiCall :: "Env \<Rightarrow> string \<Rightarrow> KeyPair option \<Rightarrow> string \<Rightarrow> Error + int list" where
  "signMultiCall env pubKey kp messageHash =
     (case kp of
        None \<Rightarrow> Inl GuardianUnavailableError
      | Some k \<Rightarrow> (case ellipticCurve_sign env k messageHash of (r, s) \<Rightarrow> Inr [r, s]))"

definition OpenZeppelinAccount_getSignatures :: "Env \<Rightarrow> Account \<Rightarrow> string \<Rightarrow> Error + int list" where
  "OpenZeppelinAccount_getSignatures env this messageHash =
     signMultiCall env (publicKey this) (keyPair this) messageHash"

definition ArgentAccount_getSignatures :: "Env \<Rightarrow> ArgentAccount \<Rightarrow> string \<Rightarrow> Error + int list" where
  "ArgentAccount_getSignatures env this messageHash =
     (case signMultiCall env (publicKey this) (keyPair this) messageHash of
        Inl e \<Rightarrow> Inl e
      | Inr signerSignatures \<Rightarrow>
          (case signMultiCall env (guardianPublicKey this) (guardianKeyPair this) messageHash of
             Inl e \<Rightarrow> Inl e
           | Inr guardianSignatures \<Rightarrow> Inr (signerSignatures @ guardianSignatures)))"

fun getSignatures :: "Env \<Rightarrow> AccountImpl \<Rightarrow> string \<Rightarrow> Error + int list" where
  "getSignatures env (OpenZeppelin a) = OpenZeppelinAccount_getSignatures env a"
| "getSignatures env (Argent a) = ArgentAccount_getSignatures env a"

section \<open>The class \<^verbatim>\<open>Account\<close>\<close>

subsection \<open>\<^verbatim>\<open>handleMultiInteract\<close>\<close>

text \<open>
  \<^verbatim>\<open>callParameters.map(...)\<close>: each call's named arguments go through the
  \<^verbatim>\<open>adaptInput\<close> of its contract, in order; the first one that throws ends the map.
\<close>

fun callArray_map ::
    "Env \<Rightarrow> CallParameters list \<Rightarrow> State \<Rightarrow> (Error + Call list) \<times> State" where
  "callArray_map env [] s = (Inr [], s)"
| "callArray_map env (cp # cps) s =
     (let s1 = emit (AdaptInput (address (toContract cp)) (functionName cp)) s in
      case adaptInput env (toContract cp) (functionName cp) (calldata cp) of
        Inl e \<Rightarrow> (Inl e, s1)
      | Inr cd \<Rightarrow>
          (case callArray_map env cps s1 of
             (Inl e, s2) \<Rightarrow> (Inl e, s2)
           | (Inr cs, s2) \<Rightarrow>
               (Inr (\<lparr>contractAddress = address (toContract cp),
                       entrypoint = functionName cp,
                       Call_calldata = cd\<rparr> # cs), s2)))"

text \<open>
  \<^verbatim>\<open>callArray.forEach(...)\<close>, with the arrays \<^verbatim>\<open>executeCallArray\<close> and \<^verbatim>\<open>rawCalldata\<close>
  as accumulators: a descriptor is pushed with \<^verbatim>\<open>data_offset: rawCalldata.length\<close>, then
  the call's calldata is pushed onto \<^verbatim>\<open>rawCalldata\<close>.
\<close>

fun executeCallArray_forEach ::
    "Env \<Rightarrow> Call list \<Rightarrow> ExecuteCallParameters list \<Rightarrow> RawCalldata \<Rightarrow>
       Error + ExecuteCallParameters list \<times> RawCalldata" where
  "executeCallArray_forEach env [] executeCallArray rawCalldata = Inr (executeCallArray, rawCalldata)"
| "executeCallArray_forEach env (c # cs) executeCallArray rawCalldata =
     (case BigInt env (contractAddress c) of
        None \<Rightarrow> Inl SyntaxError
      | Some t \<Rightarrow>
          executeCallArray_forEach env cs
            (executeCallArray @
               [\<lparr>to = t,
                 selector = starknetKeccak env (entrypoint c),
                 data_offset = length rawCalldata,
                 data_len = length (Call_calldata c)\<rparr>])
            (rawCalldata @ Call_calldata c))"

definition handleMultiInteract ::
    "Env \<Rightarrow> AccountImpl \<Rightarrow> string \<Rightarrow> CallParameters list \<Rightarrow> Numeric \<Rightarrow> Numeric \<Rightarrow> Numeric \<Rightarrow>
       State \<Rightarrow> (Error + string \<times> ExecuteArgs) \<times> State" where
  "handleMultiInteract env this accountAddress callParameters nonceV maxFeeV version s =
     (case callArray_map env callParameters s of
        (Inl e, s1) \<Rightarrow> (Inl e, s1)
      | (Inr callArray, s1) \<Rightarrow>
          (case executeCallArray_forEach env callArray [] [] of
             Inl e \<Rightarrow> (Inl e, s1)
           | Inr (executeCallArray, rawCalldata) \<Rightarrow>
               let adaptedNonce = toString 10 nonceV;
                   adaptedMaxFee = ''0x'' @ toString 16 maxFeeV;
                   adaptedVersion = ''0x'' @ toString 16 version
               in (case getMessageHash env this accountAddress callArray
                          adaptedNonce adaptedMaxFee adaptedVersion of
                     Inl e \<Rightarrow> (Inl e, s1)
                   | Inr messageHash \<Rightarrow>
                       (Inr (messageHash,
                             \<lparr>call_array = executeCallArray,
                               args_calldata = rawCalldata,
                               args_nonce = adaptedNonce\<rparr>), s1))))"

subsection \<open>\<^verbatim>\<open>multiInteract\<close> and the public methods\<close>

text \<open>
  The left operand of \<^verbatim>\<open>v || w\<close> for an optional numeric value: the value when it is
  present and truthy (not zero), nothing when it is absent or zero, so that \<^verbatim>\<open>w\<close> is
  taken.
\<close>

definition truthy :: "Numeric option \<Rightarrow> Numeric option" where
  "truthy v = (case v of None \<Rightarrow> None | Some n \<Rightarrow> if n \<noteq> 0 then Some n else None)"

text \<open>
  The statements of \<^verbatim>\<open>multiInteract\<close> in the order of the source: the copy of the
  options, \<^verbatim>\<open>maxFee\<close> (\<^verbatim>\<open>BigInt(options?.maxFee || "0")\<close>), the nonce
  (\<^verbatim>\<open>options.nonce || (await this.getNonce())\<close>), the
  deletion of \<^verbatim>\<open>options.nonce\<close>, \<^verbatim>\<open>handleMultiInteract\<close>, the test of
  \<^verbatim>\<open>options.signature\<close> (an array is truthy, also the empty one), the signatures, the
  object \<^verbatim>\<open>{ signature: signatures, ...options }\<close> and the interaction command of the
  account's contract.
\<close>

definition multiInteract ::
    "Env \<Rightarrow> AccountImpl \<Rightarrow> InteractChoice \<Rightarrow> CallParameters list \<Rightarrow> nat option \<Rightarrow>
       State \<Rightarrow> (Error + Response) \<times> State" where
  "multiInteract env this choice callParameters options s0 =
     (case defaultOptions options s0 of (given, s1) \<Rightarrow>
      case copyWithBigint given s1 of (opts, s2) \<Rightarrow>
      let fee = (case truthy (maxFee (deref opts s2)) of None \<Rightarrow> 0 | Some f \<Rightarrow> f);
          s3 = assign opts (\<lambda>obj. obj\<lparr>maxFee := Some fee\<rparr>) s2
      in (case (case truthy (nonce (deref opts s3)) of
                  None \<Rightarrow> getNonce env this s3
                | Some n \<Rightarrow> (Inr n, s3)) of
            (Inl e, s4) \<Rightarrow> (Inl e, s4)
          | (Inr nonceV, s4) \<Rightarrow>
              let s5 = assign opts (\<lambda>obj. obj\<lparr>nonce := None\<rparr>) s4 in
              (case handleMultiInteract env this (address (this_starknetContract this))
                      callParameters nonceV fee (transactionVersion env choice) s5 of
                 (Inl e, s6) \<Rightarrow> (Inl e, s6)
               | (Inr (messageHash, args), s6) \<Rightarrow>
                   if signature (deref opts s6) \<noteq> None then (Inl UnsupportedOverrideError, s6)
                   else
                     (case getSignatures env this messageHash of
                        Inl e \<Rightarrow> (Inl e, s6)
                      | Inr signatures \<Rightarrow>
                          let contractInteractOptions = (deref opts s6)\<lparr>signature := Some signatures\<rparr>;
                              executionFunctionName = getExecutionFunctionName this
                          in (contractInteractor env choice (this_starknetContract this)
                                executionFunctionName args contractInteractOptions,
                              emit (Interact choice (address (this_starknetContract this))
                                      executionFunctionName args contractInteractOptions) s6)))))"

definition interact ::
    "Env \<Rightarrow> AccountImpl \<Rightarrow> InteractChoice \<Rightarrow> StarknetContract \<Rightarrow> string \<Rightarrow> StringMap option \<Rightarrow>
       nat option \<Rightarrow> State \<Rightarrow> (Error + Response) \<times> State" where
  "interact env this choice toC fn cd options s =
     multiInteract env this choice [\<lparr>toContract = toC, functionName = fn, calldata = cd\<rparr>] options s"

text \<open>
  \<^verbatim>\<open>call\<close> and \<^verbatim>\<open>multiCall\<close>: when the variant has raw output, the options are copied
  and the copy's \<^verbatim>\<open>rawOutput\<close> is set. The response is destructured as
  \<^verbatim>\<open>{ response }\<close>; on a response of another shape \<^verbatim>\<open>response.join\<close> is a \<^verbatim>\<open>TypeError\<close>.
\<close>

definition rawOutputOptions :: "AccountImpl \<Rightarrow> nat option \<Rightarrow> State \<Rightarrow> nat \<times> State" where
  "rawOutputOptions this options s0 =
     (case defaultOptions options s0 of (given, s1) \<Rightarrow>
      if hasRawOutput this then
        (case copyWithBigint given s1 of (opts, s2) \<Rightarrow>
           (opts, assign opts (\<lambda>obj. obj\<lparr>rawOutput := Some True\<rparr>) s2))
      else (given, s1))"

definition Account_call ::
    "Env \<Rightarrow> AccountImpl \<Rightarrow> StarknetContract \<Rightarrow> string \<Rightarrow> StringMap option \<Rightarrow> nat option \<Rightarrow>
       State \<Rightarrow> (Error + StringMap) \<times> State" where
  "Account_call env this toC fn cd options s0 =
     (case rawOutputOptions this options s0 of (opts, s1) \<Rightarrow>
      (case interact env this CALL toC fn cd (Some opts) s1 of
         (Inl e, s2) \<Rightarrow> (Inl e, s2)
       | (Inr (CallResponse response), s2) \<Rightarrow>
           (adaptOutput env toC fn (join '' '' response), emit (AdaptOutput (address toC) fn) s2)
       | (Inr other, s2) \<Rightarrow> (Inl TypeError, s2)))"

definition estimateFee ::
    "Env \<Rightarrow> AccountImpl \<Rightarrow> StarknetContract \<Rightarrow> string \<Rightarrow> StringMap option \<Rightarrow> nat option \<Rightarrow>
       State \<Rightarrow> (Error + Response) \<times> State" where
  "estimateFee env this toC fn cd options s = interact env this ESTIMATE_FEE toC fn cd options s"

definition multiCall ::
    "Env \<Rightarrow> AccountImpl \<Rightarrow> CallParameters list \<Rightarrow> nat option \<Rightarrow>
       State \<Rightarrow> (Error + StringMap list) \<times> State" where
  "multiCall env this callParameters options s0 =
     (case rawOutputOptions this options s0 of (opts, s1) \<Rightarrow>
      (case multiInteract env this CALL callParameters (Some opts) s1 of
         (Inl e, s2) \<Rightarrow> (Inl e, s2)
       | (Inr (CallResponse response), s2) \<Rightarrow> (parseMulticallOutput env response callParameters, s2)
       | (Inr other, s2) \<Rightarrow> (Inl TypeError, s2)))"

definition multiInvoke ::
    "Env \<Rightarrow> AccountImpl \<Rightarrow> CallParameters list \<Rightarrow> nat option \<Rightarrow>
       State \<Rightarrow> (Error + Response) \<times> State" where
  "multiInvoke env this callParameters options s = multiInteract env this INVOKE callParameters options s"

definition multiEstimateFee ::
    "Env \<Rightarrow> AccountImpl \<Rightarrow> CallParameters list \<Rightarrow> nat option \<Rightarrow>
       State \<Rightarrow> (Error + Response) \<times> State" where
  "multiEstimateFee env this callParameters options s =
     multiInteract env this ESTIMATE_FEE callParameters options s"

section \<open>\<^verbatim>\<open>getAccountFromAddress\<close>\<close>

text \<open>
  Both variants resolve the artifacts (type name, artifact name, version), take the
  contract at the address, read the public key the contract stores, derive the key pair
  from the private key without its two leading characters, and compare
  \<^verbatim>\<open>BigInt(publicKey)\<close> with the key read back.
\<close>

definition OpenZeppelinAccount_getAccountFromAddress ::
    "Env \<Rightarrow> string \<Rightarrow> string \<Rightarrow> HardhatRuntimeEnvironment \<Rightarrow> State \<Rightarrow> (Error + Account) \<times> State" where
  "OpenZeppelinAccount_getAccountFromAddress env addr privKey h s =
     (case handleAccountContractArtifacts env ''OpenZeppelinAccount'' ''Account'' ''0.1.0'' h of
        Inl e \<Rightarrow> (Inl e, s)
      | Inr contractPath \<Rightarrow>
     (case getContractFactory env h contractPath of
        Inl e \<Rightarrow> (Inl e, s)
      | Inr contractFactory \<Rightarrow>
     (case getContractAt env contractFactory addr of
        Inl e \<Rightarrow> (Inl e, s)
      | Inr contract \<Rightarrow>
     (let s1 = emit (ContractCall (address contract) ''get_public_key'') s in
      case callContract env contract ''get_public_key'' ''res'' of
        Inl e \<Rightarrow> (Inl e, s1)
      | Inr expectedPubKey \<Rightarrow>
          let kp = getKeyPair env (toBN_hex env (drop 2 privKey));
              pubKey = getStarkKey env kp
          in (case BigInt env pubKey of
                None \<Rightarrow> (Inl SyntaxError, s1)
              | Some k \<Rightarrow>
                  if k \<noteq> expectedPubKey then (Inl KeyMismatchError, s1)
                  else (Inr \<lparr>starknetContract = contract, privateKey = privKey,
                              publicKey = pubKey, keyPair = Some kp, hre = h\<rparr>, s1))))))"

definition ArgentAccount_getAccountFromAddress ::
    "Env \<Rightarrow> string \<Rightarrow> string \<Rightarrow> HardhatRuntimeEnvironment \<Rightarrow> State \<Rightarrow> (Error + ArgentAccount) \<times> State" where
  "ArgentAccount_getAccountFromAddress env addr privKey h s =
     (case handleAccountContractArtifacts env ''ArgentAccount'' ''ArgentAccount'' ''0.2.1'' h of
        Inl e \<Rightarrow> (Inl e, s)
      | Inr contractPath \<Rightarrow>
     (case getContractFactory env h contractPath of
        Inl e \<Rightarrow> (Inl e, s)
      | Inr contractFactory \<Rightarrow>
     (case getContractAt env contractFactory addr of
        Inl e \<Rightarrow> (Inl e, s)
      | Inr contract \<Rightarrow>
     (let s1 = emit (ContractCall (address contract) ''get_signer'') s in
      case callContract env contract ''get_signer'' ''signer'' of
        Inl e \<Rightarrow> (Inl e, s1)
      | Inr expectedPubKey \<Rightarrow>
          let kp = getKeyPair env (toBN_hex env (drop 2 privKey));
              pubKey = getStarkKey env kp
          in (case BigInt env pubKey of
                None \<Rightarrow> (Inl SyntaxError, s1)
              | Some k \<Rightarrow>
                  if k \<noteq> expectedPubKey then (Inl KeyMismatchError, s1)
                  else (Inr \<lparr>starknetContract = contract, privateKey = privKey,
                              publicKey = pubKey, keyPair = Some kp, hre = h,
                              guardianPublicKey = ''0'', guardianPrivateKey = ''0'',
                              guardianKeyPair = None\<rparr>, s1))))))"

section \<open>Notions the properties are stated with\<close>

text \<open>
  Descriptors tile a buffer from position \<open>pos\<close> to \<open>n\<close>: each one starts where its
  predecessor ended, and the last one ends at \<open>n\<close>; so there is neither a gap nor an
  overlap.
\<close>

fun tiles :: "ExecuteCallParameters list \<Rightarrow> nat \<Rightarrow> nat \<Rightarrow> bool" where
  "tiles [] pos n = (pos = n)"
| "tiles (d # ds) pos n = (data_offset d = pos \<and> tiles ds (pos + data_len d) n)"

text \<open>The options objects the interaction commands received, in the order of the calls.\<close>

fun dispatchedOptions :: "Event list \<Rightarrow> InteractOptions list" where
  "dispatchedOptions [] = []"
| "dispatchedOptions (Interact choice a f args obj # es) = obj # dispatchedOptions es"
| "dispatchedOptions (e # es) = dispatchedOptions es"

text \<open>The arguments the interaction commands received.\<close>

fun dispatchedArgs :: "Event list \<Rightarrow> ExecuteArgs list" where
  "dispatchedArgs [] = []"
| "dispatchedArgs (Interact choice a f args obj # es) = args # dispatchedArgs es"
| "dispatchedArgs (e # es) = dispatchedArgs es"

definition adaptEvents :: "CallParameters list \<Rightarrow> Event list" where
  "adaptEvents cps = map (\<lambda>cp. AdaptInput (address (toContract cp)) (functionName cp)) cps"

text \<open>The events a run added to the trace.\<close>

definition newEvents :: "State \<Rightarrow> State \<Rightarrow> Event list" where
  "newEvents s s' = drop (length (trace s)) (trace s')"

text \<open>
  How many calls of \<^verbatim>\<open>adaptInput\<close> the map of \<^verbatim>\<open>handleMultiInteract\<close> makes: all of
  them, or those up to the first that throws.
\<close>

fun adaptedCount :: "Env \<Rightarrow> CallParameters list \<Rightarrow> nat" where
  "adaptedCount env [] = 0"
| "adaptedCount env (cp # cps) =
     (case adaptInput env (toContract cp) (functionName cp) (calldata cp) of
        Inl e \<Rightarrow> 1
      | Inr cd \<Rightarrow> Suc (adaptedCount env cps))"

text \<open>
  The results of \<^verbatim>\<open>getNonce\<close> and of \<^verbatim>\<open>handleMultiInteract\<close> do not depend on the
  state they run in; these are the results.
\<close>

definition emptyState :: State where
  "emptyState = \<lparr>heap = [], trace = []\<rparr>"

definition nonceResult :: "Env \<Rightarrow> AccountImpl \<Rightarrow> Error + int" where
  "nonceResult env this = fst (getNonce env this emptyState)"

definition handleResult ::
    "Env \<Rightarrow> AccountImpl \<Rightarrow> string \<Rightarrow> CallParameters list \<Rightarrow> Numeric \<Rightarrow> Numeric \<Rightarrow> Numeric \<Rightarrow>
       Error + string \<times> ExecuteArgs" where
  "handleResult env this a cps n f v = fst (handleMultiInteract env this a cps n f v emptyState)"

definition nonceEvent :: "AccountImpl \<Rightarrow> Event" where
  "nonceEvent this = ContractCall (address (this_starknetContract this)) ''get_nonce''"

text \<open>
  An options argument is absent or refers to an object of the store; \<open>givenRawOutput\<close> is
  the \<^verbatim>\<open>rawOutput\<close> the caller supplied (nothing when the argument or the field is
  absent).
\<close>

definition validOptions :: "nat option \<Rightarrow> State \<Rightarrow> bool" where
  "validOptions options s = (case options of None \<Rightarrow> True | Some r \<Rightarrow> r < length (heap s))"

definition givenRawOutput :: "nat option \<Rightarrow> State \<Rightarrow> bool option" where
  "givenRawOutput options s = (case options of None \<Rightarrow> None | Some r \<Rightarrow> rawOutput (heap s ! r))"

section \<open>A concrete environment\<close>

text \<open>
  Collaborators to run the definitions on: \<open>parseBigInt\<close> reads hexadecimal strings
  with the prefix \<^verbatim>\<open>0x\<close> and decimal strings; the contract encodes named arguments as
  their values in order; the chain holds the nonce 5 for every account and the public
  key \<^verbatim>\<open>0x123\<close>.
\<close>

fun digitValue :: "char \<Rightarrow> nat option" where
  "digitValue c =
     (let n = (of_char c :: nat) in
      if 48 \<le> n \<and> n \<le> 57 then Some (n - 48)
      else if 97 \<le> n \<and> n \<le> 102 then Some (n - 87)
      else None)"

fun digitsValue :: "nat \<Rightarrow> string \<Rightarrow> nat \<Rightarrow> nat option" where
  "digitsValue radix [] acc = Some acc"
| "digitsValue radix (c # cs) acc =
     (case digitValue c of
        None \<Rightarrow> None
      | Some d \<Rightarrow> if d < radix then digitsValue radix cs (acc * radix + d) else None)"

fun parseBigInt :: "string \<Rightarrow> int option" where
  "parseBigInt [] = Some 0"
| "parseBigInt (c # cs) =
     (if c = CHR ''0'' \<and> cs \<noteq> [] \<and> hd cs = CHR ''x''
      then (if tl cs = [] then None else map_option int (digitsValue 16 (tl cs) 0))
      else map_option int (digitsValue 10 (c # cs) 0))"

definition env0 :: Env where
  "env0 =
     \<lparr>adaptInput = (\<lambda>c fn cd. case cd of None \<Rightarrow> Inr [] | Some m \<Rightarrow> Inr (map (\<lambda>kv. Num (snd kv)) m)),
      adaptOutput = (\<lambda>c fn out. Inr []),
      callContract = (\<lambda>c fn field. if fn = ''get_nonce'' then Inr 5 else Inr 291),
      contractInteractor =
        (\<lambda>choice c fn args obj.
           case choice of
             INVOKE \<Rightarrow> Inr (TxHash ''0x1'')
           | CALL \<Rightarrow> Inr (CallResponse [])
           | ESTIMATE_FEE \<Rightarrow> Inr (FeeEstimation 0 ''wei'')),
      parseMulticallOutput = (\<lambda>response cps. Inr []),
      starknetKeccak = (\<lambda>name. int (length name)),
      getSelectorFromName = (\<lambda>name. name),
      computeHashOnElements = (\<lambda>xs. toString 10 (int (length xs))),
      hashMulticall = (\<lambda>a calls n f v. a @ n @ f @ v),
      BigInt = parseBigInt,
      TransactionHashPrefix_INVOKE = Str ''invoke'',
      transactionVersion = (\<lambda>choice. case choice of INVOKE \<Rightarrow> 0 | CALL \<Rightarrow> 1 | ESTIMATE_FEE \<Rightarrow> 1),
      ellipticCurve_sign = (\<lambda>kp h. case kp of KeyPair k \<Rightarrow> (k, k + int (length h))),
      toBN_hex = (\<lambda>hex. case parseBigInt (''0x'' @ hex) of None \<Rightarrow> 0 | Some v \<Rightarrow> v),
      getKeyPair = KeyPair,
      getStarkKey = (\<lambda>kp. case kp of KeyPair k \<Rightarrow> ''0x'' @ toString 16 k),
      handleAccountContractArtifacts = (\<lambda>typeName artifact version h. Inr artifact),
      getContractFactory = (\<lambda>h path. Inr path),
      getContractAt = (\<lambda>factory a. Inr \<lparr>address = a\<rparr>)\<rparr>"

definition hre0 :: HardhatRuntimeEnvironment where
  "hre0 = \<lparr>starknetChainId = ''SN''\<rparr>"

definition oz0 :: Account where
  "oz0 = \<lparr>starknetContract = \<lparr>address = ''0xacc''\<rparr>, privateKey = ''0x7'', publicKey = ''0x7'',
           keyPair = Some (KeyPair 7), hre = hre0\<rparr>"

definition argent0 :: ArgentAccount where
  "argent0 = \<lparr>starknetContract = \<lparr>address = ''0xacc''\<rparr>, privateKey = ''0x7'', publicKey = ''0x7'',
               keyPair = Some (KeyPair 7), hre = hre0,
               guardianPublicKey = ''0x9'', guardianPrivateKey = ''0x9'',
               guardianKeyPair = Some (KeyPair 9)\<rparr>"

definition contractA :: StarknetContract where
  "contractA = \<lparr>address = ''0xa''\<rparr>"

definition contractB :: StarknetContract where
  "contractB = \<lparr>address = ''0xb''\<rparr>"

definition calls0 :: "CallParameters list" where
  "calls0 =
     [\<lparr>toContract = contractA, functionName = ''foo'', calldata = Some [(''x'', 1)]\<rparr>,
      \<lparr>toContract = contractB, functionName = ''bar'', calldata = Some []\<rparr>,
      \<lparr>toContract = contractA, functionName = ''baz'', calldata = Some [(''y'', 2), (''z'', 3)]\<rparr>]"

definition state0 :: "InteractOptions \<Rightarrow> State" where
  "state0 obj = \<lparr>heap = [obj], trace = []\<rparr>"

text \<open>The same collaborators, with a contract whose \<^verbatim>\<open>adaptInput\<close> rejects every input.\<close>

definition envReject :: Env where
  "envReject = env0\<lparr>adaptInput := (\<lambda>c fn cd. Inl CalldataEncodingError)\<rparr>"

section \<open>Auxiliary facts\<close>

subsection \<open>The concrete environment\<close>

lemma env0_simps:
  "adaptInput env0 = (\<lambda>c fn cd. case cd of None \<Rightarrow> Inr [] | Some m \<Rightarrow> Inr (map (\<lambda>kv. Num (snd kv)) m))"
  "adaptOutput env0 = (\<lambda>c fn out. Inr [])"
  "callContract env0 = (\<lambda>c fn field. if fn = ''get_nonce'' then Inr 5 else Inr 291)"
  "contractInteractor env0 =
     (\<lambda>choice c fn args obj.
        case choice of
          INVOKE \<Rightarrow> Inr (TxHash ''0x1'')
        | CALL \<Rightarrow> Inr (CallResponse [])
        | ESTIMATE_FEE \<Rightarrow> Inr (FeeEstimation 0 ''wei''))"
  "parseMulticallOutput env0 = (\<lambda>response cps. Inr [])"
  "starknetKeccak env0 = (\<lambda>name. int (length name))"
  "getSelectorFromName env0 = (\<lambda>name. name)"
  "computeHashOnElements env0 = (\<lambda>xs. toString 10 (int (length xs)))"
  "hashMulticall env0 = (\<lambda>a calls n f v. a @ n @ f @ v)"
  "BigInt env0 = parseBigInt"
  "TransactionHashPrefix_INVOKE env0 = Str ''invoke''"
  "transactionVersion env0 = (\<lambda>choice. case choice of INVOKE \<Rightarrow> 0 | CALL \<Rightarrow> 1 | ESTIMATE_FEE \<Rightarrow> 1)"
  "ellipticCurve_sign env0 = (\<lambda>kp h. case kp of KeyPair k \<Rightarrow> (k, k + int (length h)))"
  "toBN_hex env0 = (\<lambda>hex. case parseBigInt (''0x'' @ hex) of None \<Rightarrow> 0 | Some v \<Rightarrow> v)"
  "getKeyPair env0 = KeyPair"
  "getStarkKey env0 = (\<lambda>kp. case kp of KeyPair k \<Rightarrow> ''0x'' @ toString 16 k)"
  "handleAccountContractArtifacts env0 = (\<lambda>typeName artifact version h. Inr artifact)"
  "getContractFactory env0 = (\<lambda>h path. Inr path)"
  "getContractAt env0 = (\<lambda>factory a. Inr \<lparr>address = a\<rparr>)"
  by (simp_all add: env0_def)

lemma digits_base: "n < radix \<Longrightarrow> digits radix n = [digitChar n]"
  by (subst digits.simps) simp

lemma digits_step:
  "2 \<le> radix \<Longrightarrow> radix \<le> n \<Longrightarrow>
   digits radix n = digits radix (n div radix) @ [digitChar (n mod radix)]"
  by (subst digits.simps) simp

lemma toString_values:
  "toString 10 0 = ''0''"
  "toString 10 1 = ''1''"
  "toString 10 5 = ''5''"
  "toString 10 7 = ''7''"
  "toString 10 18 = ''18''"
  "toString 10 21326 = ''21326''"
  "toString 16 0 = ''0''"
  "toString 16 1 = ''1''"
  "toString 16 291 = ''123''"
  "toString 16 292 = ''124''"
  by (simp_all add: toString_def digits_base digits_step digitChar_def)

lemma parseBigInt_values:
  "parseBigInt ''0xa'' = Some 10"
  "parseBigInt ''0xb'' = Some 11"
  "parseBigInt ''0x123'' = Some 291"
  "parseBigInt ''0x124'' = Some 292"
  "parseBigInt ''0x534e'' = Some 21326"
  by simp_all

lemma hexOfBytes_SN: "hexOfBytes ''SN'' = ''534e''"
  by (simp add: hexOfBytes_def digitChar_def)

subsection \<open>The descriptors of the \<^verbatim>\<open>forEach\<close>\<close>

lemma forEach_general:
  assumes "list_all (\<lambda>c. BigInt env (contractAddress c) \<noteq> None) cs"
  shows "\<exists>ds. executeCallArray_forEach env cs ecs raw = Inr (ecs @ ds, raw @ concat (map Call_calldata cs)) \<and>
     length ds = length cs \<and>
     (\<forall>i<length cs.
        BigInt env (contractAddress (cs ! i)) = Some (to (ds ! i)) \<and>
        selector (ds ! i) = starknetKeccak env (entrypoint (cs ! i)) \<and>
        data_offset (ds ! i) = length raw + length (concat (map Call_calldata (take i cs))) \<and>
        data_len (ds ! i) = length (Call_calldata (cs ! i))) \<and>
     tiles ds (length raw) (length raw + length (concat (map Call_calldata cs)))"
  using assms
proof (induction cs arbitrary: ecs raw)
  case Nil
  then show ?case by simp
next
  case (Cons c cs)
  from Cons.prems obtain t where t: "BigInt env (contractAddress c) = Some t"
    and rest: "list_all (\<lambda>c. BigInt env (contractAddress c) \<noteq> None) cs"
    by auto
  let ?d = "\<lparr>to = t, selector = starknetKeccak env (entrypoint c),
             data_offset = length raw, data_len = length (Call_calldata c)\<rparr>"
  from Cons.IH [OF rest, of "ecs @ [?d]" "raw @ Call_calldata c"]
  obtain ds where run: "executeCallArray_forEach env cs (ecs @ [?d]) (raw @ Call_calldata c) =
        Inr ((ecs @ [?d]) @ ds, (raw @ Call_calldata c) @ concat (map Call_calldata cs))"
    and len: "length ds = length cs"
    and each: "\<forall>i<length cs.
        BigInt env (contractAddress (cs ! i)) = Some (to (ds ! i)) \<and>
        selector (ds ! i) = starknetKeccak env (entrypoint (cs ! i)) \<and>
        data_offset (ds ! i) = length (raw @ Call_calldata c) + length (concat (map Call_calldata (take i cs))) \<and>
        data_len (ds ! i) = length (Call_calldata (cs ! i))"
    and tl: "tiles ds (length (raw @ Call_calldata c))
        (length (raw @ Call_calldata c) + length (concat (map Call_calldata cs)))"
    by blast
  have "executeCallArray_forEach env (c # cs) ecs raw =
      Inr (ecs @ (?d # ds), raw @ concat (map Call_calldata (c # cs)))"
    using t run by simp
  moreover have "length (?d # ds) = length (c # cs)" using len by simp
  moreover have "\<forall>i<length (c # cs).
        BigInt env (contractAddress ((c # cs) ! i)) = Some (to ((?d # ds) ! i)) \<and>
        selector ((?d # ds) ! i) = starknetKeccak env (entrypoint ((c # cs) ! i)) \<and>
        data_offset ((?d # ds) ! i) = length raw + length (concat (map Call_calldata (take i (c # cs)))) \<and>
        data_len ((?d # ds) ! i) = length (Call_calldata ((c # cs) ! i))"
  proof (intro allI impI)
    fix i assume i: "i < length (c # cs)"
    show "BigInt env (contractAddress ((c # cs) ! i)) = Some (to ((?d # ds) ! i)) \<and>
        selector ((?d # ds) ! i) = starknetKeccak env (entrypoint ((c # cs) ! i)) \<and>
        data_offset ((?d # ds) ! i) = length raw + length (concat (map Call_calldata (take i (c # cs)))) \<and>
        data_len ((?d # ds) ! i) = length (Call_calldata ((c # cs) ! i))"
    proof (cases i)
      case 0
      then show ?thesis using t by simp
    next
      case (Suc j)
      with i have "j < length cs" by simp
      with each Suc show ?thesis by simp
    qed
  qed
  moreover have "tiles (?d # ds) (length raw) (length raw + length (concat (map Call_calldata (c # cs))))"
    using tl by (simp add: add.assoc)
  ultimately show ?case by blast
qed

lemma take_drop_concat:
  "i < length xss \<Longrightarrow>
   take (length (xss ! i)) (drop (length (concat (take i xss))) (concat xss)) = xss ! i"
proof (induction xss arbitrary: i)
  case Nil
  then show ?case by simp
next
  case (Cons xs xss)
  show ?case
  proof (cases i)
    case 0
    then show ?thesis by simp
  next
    case (Suc j)
    with Cons.prems have "j < length xss" by simp
    from Cons.IH [OF this] Suc show ?thesis by simp
  qed
qed

lemma callArray_map_Inr:
  "fst (callArray_map env cps s) = Inr cs \<Longrightarrow>
   length cs = length cps \<and>
   (\<forall>i<length cps.
      adaptInput env (toContract (cps ! i)) (functionName (cps ! i)) (calldata (cps ! i)) =
        Inr (Call_calldata (cs ! i)) \<and>
      contractAddress (cs ! i) = address (toContract (cps ! i)) \<and>
      entrypoint (cs ! i) = functionName (cps ! i))"
proof (induction cps arbitrary: s cs)
  case Nil
  then show ?case by simp
next
  case (Cons cp cps)
  let ?s1 = "emit (AdaptInput (address (toContract cp)) (functionName cp)) s"
  from Cons.prems obtain cd where cd: "adaptInput env (toContract cp) (functionName cp) (calldata cp) = Inr cd"
    by (cases "adaptInput env (toContract cp) (functionName cp) (calldata cp)") (simp_all add: Let_def)
  obtain r s2 where m: "callArray_map env cps ?s1 = (r, s2)"
    by (cases "callArray_map env cps ?s1")
  with Cons.prems cd obtain cs' where r: "r = Inr cs'"
    by (cases r) (simp_all add: Let_def)
  with m have f: "fst (callArray_map env cps ?s1) = Inr cs'" by simp
  from Cons.prems cd m r have cs: "cs = \<lparr>contractAddress = address (toContract cp),
      entrypoint = functionName cp, Call_calldata = cd\<rparr> # cs'"
    by (simp add: Let_def)
  from Cons.IH [OF f] have len: "length cs' = length cps"
    and each: "\<forall>i<length cps.
      adaptInput env (toContract (cps ! i)) (functionName (cps ! i)) (calldata (cps ! i)) =
        Inr (Call_calldata (cs' ! i)) \<and>
      contractAddress (cs' ! i) = address (toContract (cps ! i)) \<and>
      entrypoint (cs' ! i) = functionName (cps ! i)"
    by simp_all
  have "\<forall>i<length (cp # cps).
      adaptInput env (toContract ((cp # cps) ! i)) (functionName ((cp # cps) ! i)) (calldata ((cp # cps) ! i)) =
        Inr (Call_calldata (cs ! i)) \<and>
      contractAddress (cs ! i) = address (toContract ((cp # cps) ! i)) \<and>
      entrypoint (cs ! i) = functionName ((cp # cps) ! i)"
  proof (intro allI impI)
    fix i assume i: "i < length (cp # cps)"
    show "adaptInput env (toContract ((cp # cps) ! i)) (functionName ((cp # cps) ! i)) (calldata ((cp # cps) ! i)) =
        Inr (Call_calldata (cs ! i)) \<and>
      contractAddress (cs ! i) = address (toContract ((cp # cps) ! i)) \<and>
      entrypoint (cs ! i) = functionName ((cp # cps) ! i)"
    proof (cases i)
      case 0
      with cd cs show ?thesis by simp
    next
      case (Suc j)
      with i have "j < length cps" by simp
      with each Suc cs show ?thesis by simp
    qed
  qed
  with len cs show ?case by simp
qed

lemma callArray_map_succeeds:
  "\<forall>cp\<in>set cps. \<exists>cd. adaptInput env (toContract cp) (functionName cp) (calldata cp) = Inr cd \<Longrightarrow>
   \<exists>cs. fst (callArray_map env cps s) = Inr cs"
proof (induction cps arbitrary: s)
  case Nil
  then show ?case by simp
next
  case (Cons cp cps)
  let ?s1 = "emit (AdaptInput (address (toContract cp)) (functionName cp)) s"
  from Cons.prems obtain cd where cd: "adaptInput env (toContract cp) (functionName cp) (calldata cp) = Inr cd"
    by auto
  from Cons.prems have "\<forall>cp\<in>set cps. \<exists>cd. adaptInput env (toContract cp) (functionName cp) (calldata cp) = Inr cd"
    by simp
  from Cons.IH [OF this, of ?s1] obtain cs where "fst (callArray_map env cps ?s1) = Inr cs" by blast
  with cd show ?case
    by (cases "callArray_map env cps ?s1") (simp add: Let_def)
qed

lemma forEach_Inr_parses:
  "executeCallArray_forEach env cs ecs raw = Inr x \<Longrightarrow>
   list_all (\<lambda>c. BigInt env (contractAddress c) \<noteq> None) cs"
proof (induction cs arbitrary: ecs raw)
  case Nil
  then show ?case by simp
next
  case (Cons c cs)
  from Cons.prems obtain t where t: "BigInt env (contractAddress c) = Some t"
    by (cases "BigInt env (contractAddress c)") simp_all
  with Cons.prems have "executeCallArray_forEach env cs
            (ecs @ [\<lparr>to = t, selector = starknetKeccak env (entrypoint c),
                 data_offset = length raw, data_len = length (Call_calldata c)\<rparr>])
            (raw @ Call_calldata c) = Inr x"
    by simp
  from Cons.IH [OF this] t show ?case by simp
qed

text \<open>The descriptors and the flat calldata of a call array that is the map of the calls.\<close>

lemma descriptors_of_calls:
  assumes m: "fst (callArray_map env cps s) = Inr cs"
    and f: "executeCallArray_forEach env cs [] [] = Inr (ds, raw)"
  shows "\<exists>encoded. length encoded = length cps \<and> length ds = length cps \<and>
         raw = concat encoded \<and>
         (\<forall>i<length cps.
            adaptInput env (toContract (cps ! i)) (functionName (cps ! i)) (calldata (cps ! i)) =
              Inr (encoded ! i) \<and>
            BigInt env (address (toContract (cps ! i))) = Some (to (ds ! i)) \<and>
            selector (ds ! i) = starknetKeccak env (functionName (cps ! i)) \<and>
            data_offset (ds ! i) = length (concat (take i encoded)) \<and>
            data_len (ds ! i) = length (encoded ! i) \<and>
            take (data_len (ds ! i)) (drop (data_offset (ds ! i)) raw) = encoded ! i) \<and>
         tiles ds 0 (length raw)"
proof -
  from callArray_map_Inr [OF m] have len: "length cs = length cps"
    and each: "\<forall>i<length cps.
      adaptInput env (toContract (cps ! i)) (functionName (cps ! i)) (calldata (cps ! i)) =
        Inr (Call_calldata (cs ! i)) \<and>
      contractAddress (cs ! i) = address (toContract (cps ! i)) \<and>
      entrypoint (cs ! i) = functionName (cps ! i)"
    by simp_all
  from forEach_Inr_parses [OF f] have p: "list_all (\<lambda>c. BigInt env (contractAddress c) \<noteq> None) cs" .
  from forEach_general [OF p, of "[]" "[]"] f
  have dlen: "length ds = length cs"
    and raw: "raw = concat (map Call_calldata cs)"
    and d: "\<forall>i<length cs.
        BigInt env (contractAddress (cs ! i)) = Some (to (ds ! i)) \<and>
        selector (ds ! i) = starknetKeccak env (entrypoint (cs ! i)) \<and>
        data_offset (ds ! i) = length (concat (map Call_calldata (take i cs))) \<and>
        data_len (ds ! i) = length (Call_calldata (cs ! i))"
    and tl: "tiles ds 0 (length (concat (map Call_calldata cs)))"
    by auto
  let ?enc = "map Call_calldata cs"
  have slice: "take (data_len (ds ! i)) (drop (data_offset (ds ! i)) raw) = ?enc ! i"
    if "i < length cps" for i
  proof -
    from that len have i: "i < length ?enc" by simp
    from that len have i': "i < length cs" by simp
    from take_drop_concat [OF i] d [rule_format, OF i'] i' raw show ?thesis by (simp add: take_map)
  qed
  have "\<forall>i<length cps.
            adaptInput env (toContract (cps ! i)) (functionName (cps ! i)) (calldata (cps ! i)) =
              Inr (?enc ! i) \<and>
            BigInt env (address (toContract (cps ! i))) = Some (to (ds ! i)) \<and>
            selector (ds ! i) = starknetKeccak env (functionName (cps ! i)) \<and>
            data_offset (ds ! i) = length (concat (take i ?enc)) \<and>
            data_len (ds ! i) = length (?enc ! i) \<and>
            take (data_len (ds ! i)) (drop (data_offset (ds ! i)) raw) = ?enc ! i"
  proof (intro allI impI)
    fix i assume i: "i < length cps"
    with len have i': "i < length cs" by simp
    from each [rule_format, OF i] d [rule_format, OF i'] slice [OF i] i' show "adaptInput env (toContract (cps ! i)) (functionName (cps ! i)) (calldata (cps ! i)) =
              Inr (?enc ! i) \<and>
            BigInt env (address (toContract (cps ! i))) = Some (to (ds ! i)) \<and>
            selector (ds ! i) = starknetKeccak env (functionName (cps ! i)) \<and>
            data_offset (ds ! i) = length (concat (take i ?enc)) \<and>
            data_len (ds ! i) = length (?enc ! i) \<and>
            take (data_len (ds ! i)) (drop (data_offset (ds ! i)) raw) = ?enc ! i"
      by (simp add: take_map)
  qed
  moreover have "length ?enc = length cps" using len by simp
  moreover have "length ds = length cps" using dlen len by simp
  moreover have "tiles ds 0 (length raw)" using tl raw by simp
  ultimately show ?thesis using raw by blast
qed

subsection \<open>The runs of \<^verbatim>\<open>handleMultiInteract\<close> and \<^verbatim>\<open>multiInteract\<close>\<close>

lemma callArray_map_run:
  "callArray_map env cps s =
     (fst (callArray_map env cps s0),
      s\<lparr>trace := trace s @ adaptEvents (take (adaptedCount env cps) cps)\<rparr>)"
proof (induction cps arbitrary: s s0)
  case Nil
  then show ?case by (simp add: adaptEvents_def)
next
  case (Cons cp cps)
  show ?case
  proof (cases "adaptInput env (toContract cp) (functionName cp) (calldata cp)")
    case (Inl e)
    then show ?thesis by (simp add: adaptEvents_def emit_def)
  next
    case (Inr cd)
    let ?e = "AdaptInput (address (toContract cp)) (functionName cp)"
    have a: "callArray_map env cps (emit ?e s) =
       (fst (callArray_map env cps s0),
        (emit ?e s)\<lparr>trace := trace (emit ?e s) @ adaptEvents (take (adaptedCount env cps) cps)\<rparr>)"
      by (rule Cons.IH)
    have b: "callArray_map env cps (emit ?e s0) =
       (fst (callArray_map env cps s0),
        (emit ?e s0)\<lparr>trace := trace (emit ?e s0) @ adaptEvents (take (adaptedCount env cps) cps)\<rparr>)"
      by (rule Cons.IH)
    show ?thesis
      using Inr a b
      by (cases "fst (callArray_map env cps s0)") (simp_all add: adaptEvents_def emit_def)
  qed
qed

lemma callArray_map_all:
  "fst (callArray_map env cps s) = Inr cs \<Longrightarrow> adaptedCount env cps = length cps"
proof (induction cps arbitrary: s cs)
  case Nil
  then show ?case by simp
next
  case (Cons cp cps)
  let ?s1 = "emit (AdaptInput (address (toContract cp)) (functionName cp)) s"
  from Cons.prems obtain cd where cd: "adaptInput env (toContract cp) (functionName cp) (calldata cp) = Inr cd"
    by (cases "adaptInput env (toContract cp) (functionName cp) (calldata cp)") (simp_all add: Let_def)
  obtain r s2 where m: "callArray_map env cps ?s1 = (r, s2)"
    by (cases "callArray_map env cps ?s1")
  with Cons.prems cd obtain cs' where "r = Inr cs'"
    by (cases r) (simp_all add: Let_def)
  with m have "fst (callArray_map env cps ?s1) = Inr cs'" by simp
  then have "adaptedCount env cps = length cps" by (rule Cons.IH)
  with cd show ?case by simp
qed

lemma handleMultiInteract_run:
  "handleMultiInteract env this a cps n f v s =
     (fst (handleMultiInteract env this a cps n f v s0),
      s\<lparr>trace := trace s @ adaptEvents (take (adaptedCount env cps) cps)\<rparr>)"
proof -
  have 1: "callArray_map env cps s =
     (fst (callArray_map env cps s0),
      s\<lparr>trace := trace s @ adaptEvents (take (adaptedCount env cps) cps)\<rparr>)"
    by (rule callArray_map_run)
  have 2: "callArray_map env cps s0 =
     (fst (callArray_map env cps s0),
      s0\<lparr>trace := trace s0 @ adaptEvents (take (adaptedCount env cps) cps)\<rparr>)"
    by (rule callArray_map_run)
  show ?thesis
    unfolding handleMultiInteract_def
    by (subst 1, subst 2) (simp add: Let_def split: sum.splits prod.splits)
qed

lemma handleMultiInteract_all:
  assumes "fst (handleMultiInteract env this a cps n f v s) = Inr x"
  shows "adaptedCount env cps = length cps"
proof -
  obtain r s1 where m: "callArray_map env cps s = (r, s1)" by (cases "callArray_map env cps s")
  with assms obtain cs where "r = Inr cs"
    by (cases r) (simp_all add: handleMultiInteract_def)
  with m have "fst (callArray_map env cps s) = Inr cs" by simp
  then show ?thesis by (rule callArray_map_all)
qed


lemma getNonce_run: "getNonce env this s = (nonceResult env this, emit (nonceEvent this) s)"
  by (cases this) (simp_all add: nonceResult_def nonceEvent_def)

lemma handleMultiInteract_run':
  "handleMultiInteract env this a cps n f v s =
     (handleResult env this a cps n f v,
      s\<lparr>trace := trace s @ adaptEvents (take (adaptedCount env cps) cps)\<rparr>)"
  unfolding handleResult_def by (rule handleMultiInteract_run)

lemma handleResult_all:
  "handleResult env this a cps n f v = Inr x \<Longrightarrow> adaptedCount env cps = length cps"
  unfolding handleResult_def by (rule handleMultiInteract_all)

lemma multiInteract_run:
  assumes r: "r < length (heap s)"
  shows "multiInteract env this choice cps (Some r) s =
    (let obj = heap s ! r;
         fee = (case truthy (maxFee obj) of None \<Rightarrow> 0 | Some f \<Rightarrow> f);
         qev = (case truthy (nonce obj) of None \<Rightarrow> [nonceEvent this] | Some n \<Rightarrow> []);
         aev = adaptEvents (take (adaptedCount env cps) cps)
     in case (case truthy (nonce obj) of None \<Rightarrow> nonceResult env this | Some n \<Rightarrow> Inr n) of
          Inl e \<Rightarrow> (Inl e, \<lparr>heap = heap s @ [obj\<lparr>maxFee := Some fee\<rparr>], trace = trace s @ qev\<rparr>)
        | Inr n \<Rightarrow>
           (case handleResult env this (address (this_starknetContract this)) cps n fee
                    (transactionVersion env choice) of
              Inl e \<Rightarrow> (Inl e, \<lparr>heap = heap s @ [obj\<lparr>maxFee := Some fee, nonce := None\<rparr>],
                                 trace = trace s @ qev @ aev\<rparr>)
            | Inr (h, args) \<Rightarrow>
                if signature obj \<noteq> None
                then (Inl UnsupportedOverrideError,
                      \<lparr>heap = heap s @ [obj\<lparr>maxFee := Some fee, nonce := None\<rparr>],
                        trace = trace s @ qev @ aev\<rparr>)
                else (case getSignatures env this h of
                        Inl e \<Rightarrow> (Inl e, \<lparr>heap = heap s @ [obj\<lparr>maxFee := Some fee, nonce := None\<rparr>],
                                          trace = trace s @ qev @ aev\<rparr>)
                      | Inr sigs \<Rightarrow>
                          (contractInteractor env choice (this_starknetContract this)
                             (getExecutionFunctionName this) args
                             (obj\<lparr>maxFee := Some fee, nonce := None, signature := Some sigs\<rparr>),
                           \<lparr>heap = heap s @ [obj\<lparr>maxFee := Some fee, nonce := None\<rparr>],
                             trace = trace s @ qev @ aev @
                               [Interact choice (address (this_starknetContract this))
                                  (getExecutionFunctionName this) args
                                  (obj\<lparr>maxFee := Some fee, nonce := None, signature := Some sigs\<rparr>)]\<rparr>))))"
  using r
  by (simp add: multiInteract_def defaultOptions_def copyWithBigint_def alloc_def deref_def
      assign_def emit_def getNonce_run handleMultiInteract_run' nth_append Let_def
      split: option.splits sum.splits prod.splits)

lemma multiInteract_default:
  "multiInteract env this choice cps None s =
   multiInteract env this choice cps (Some (length (heap s))) (s\<lparr>heap := heap s @ [emptyOptions]\<rparr>)"
  by (simp add: multiInteract_def defaultOptions_def alloc_def)

lemma dispatchedOptions_append:
  "dispatchedOptions (xs @ ys) = dispatchedOptions xs @ dispatchedOptions ys"
  by (induction xs rule: dispatchedOptions.induct) simp_all

lemma dispatchedOptions_adaptEvents: "dispatchedOptions (adaptEvents cps) = []"
  by (induction cps) (simp_all add: adaptEvents_def)

lemma newEvents_append: "trace s' = trace s @ evs \<Longrightarrow> newEvents s s' = evs"
  by (simp add: newEvents_def)

text \<open>What a run of \<^verbatim>\<open>multiInteract\<close> adds to the store and to the trace.\<close>

lemma multiInteract_effect:
  assumes r: "r < length (heap s)"
    and run: "multiInteract env this choice cps (Some r) s = (res, s')"
  shows "\<exists>copy evs. heap s' = heap s @ [copy] \<and> maxFee copy \<noteq> None \<and>
           trace s' = trace s @ evs \<and>
           (dispatchedOptions evs = [] \<and> (\<exists>e. res = Inl e) \<or>
            signature (heap s ! r) = None \<and>
            (\<exists>sigs. dispatchedOptions evs =
               [(heap s ! r)\<lparr>maxFee := Some (case truthy (maxFee (heap s ! r)) of None \<Rightarrow> 0 | Some f \<Rightarrow> f),
                              nonce := None, signature := Some sigs\<rparr>]))"
  using run unfolding multiInteract_run [OF r] Let_def
  by (auto simp: dispatchedOptions_append dispatchedOptions_adaptEvents nonceEvent_def
      split: option.splits sum.splits prod.splits if_splits)

lemma fst_getNonce: "fst (getNonce env this s) = nonceResult env this"
  by (simp add: getNonce_run)

lemma fst_handleMultiInteract:
  "fst (handleMultiInteract env this a cps n f v s) = handleResult env this a cps n f v"
  by (simp add: handleMultiInteract_run')

lemma multiInteract_rawOutput:
  assumes v: "validOptions options s"
    and run: "multiInteract env this choice cps options s = (res, s')"
  shows "\<exists>evs. trace s' = trace s @ evs \<and>
           (\<forall>obj\<in>set (dispatchedOptions evs). rawOutput obj = givenRawOutput options s)"
proof (cases options)
  case None
  let ?s1 = "s\<lparr>heap := heap s @ [emptyOptions]\<rparr>"
  have l: "length (heap s) < length (heap ?s1)" by simp
  from run None have "multiInteract env this choice cps (Some (length (heap s))) ?s1 = (res, s')"
    by (simp add: multiInteract_default)
  from multiInteract_effect [OF l this]
  obtain evs where "trace s' = trace ?s1 @ evs"
    and "dispatchedOptions evs = [] \<or>
         (\<exists>sigs. dispatchedOptions evs =
            [(heap ?s1 ! length (heap s))\<lparr>maxFee := Some (case truthy (maxFee (heap ?s1 ! length (heap s))) of None \<Rightarrow> 0 | Some f \<Rightarrow> f),
                              nonce := None, signature := Some sigs\<rparr>])"
    by blast
  with None show ?thesis
    by (auto simp: givenRawOutput_def emptyOptions_def)
next
  case (Some r)
  with v have l: "r < length (heap s)" by (simp add: validOptions_def)
  from run Some have "multiInteract env this choice cps (Some r) s = (res, s')" by simp
  from multiInteract_effect [OF l this]
  obtain evs where "trace s' = trace s @ evs"
    and "dispatchedOptions evs = [] \<or>
         (\<exists>sigs. dispatchedOptions evs =
            [(heap s ! r)\<lparr>maxFee := Some (case truthy (maxFee (heap s ! r)) of None \<Rightarrow> 0 | Some f \<Rightarrow> f),
                              nonce := None, signature := Some sigs\<rparr>])"
    by blast
  with Some show ?thesis
    by (auto simp: givenRawOutput_def)
qed

lemma rawOutputOptions_effect:
  assumes v: "validOptions options s"
    and ro: "rawOutputOptions this options s = (opts, s1)"
  shows "trace s1 = trace s \<and> opts < length (heap s1) \<and>
         rawOutput (heap s1 ! opts) = (if hasRawOutput this then Some True else givenRawOutput options s)"
  using assms
  by (cases options)
    (auto simp: rawOutputOptions_def defaultOptions_def copyWithBigint_def alloc_def deref_def
      assign_def validOptions_def givenRawOutput_def emptyOptions_def nth_append
      split: if_splits)

lemma raw_call_path:
  assumes v: "validOptions options s"
    and ro: "rawOutputOptions this options s = (opts, s1)"
    and run: "multiInteract env this choice cps (Some opts) s1 = (res, s2)"
  shows "\<exists>evs. trace s2 = trace s @ evs \<and>
           (\<forall>obj\<in>set (dispatchedOptions evs).
              rawOutput obj = (if hasRawOutput this then Some True else givenRawOutput options s))"
proof -
  from rawOutputOptions_effect [OF v ro]
  have t: "trace s1 = trace s" and l: "opts < length (heap s1)"
    and x: "rawOutput (heap s1 ! opts) = (if hasRawOutput this then Some True else givenRawOutput options s)"
    by simp_all
  from l have "validOptions (Some opts) s1" by (simp add: validOptions_def)
  from multiInteract_rawOutput [OF this run] t x show ?thesis
    by (simp add: givenRawOutput_def)
qed

lemma dispatchedArgs_append:
  "dispatchedArgs (xs @ ys) = dispatchedArgs xs @ dispatchedArgs ys"
  by (induction xs rule: dispatchedArgs.induct) simp_all

lemma dispatchedArgs_adaptEvents: "dispatchedArgs (adaptEvents cps) = []"
  by (induction cps) (simp_all add: adaptEvents_def)

lemma nonceEvent_notin_adaptEvents: "nonceEvent this \<notin> set (adaptEvents cps)"
  by (auto simp: adaptEvents_def nonceEvent_def)

lemma dispatchedArgs_nonceEvent: "dispatchedArgs (nonceEvent this # evs) = dispatchedArgs evs"
  by (simp add: nonceEvent_def)

lemma nonceEvent_ne_Interact: "nonceEvent this \<noteq> Interact c a f args obj"
  by (simp add: nonceEvent_def)

lemma handleResult_nonce:
  "handleResult env this a cps n f v = Inr (h, args) \<Longrightarrow> args_nonce args = toString 10 n"
  by (auto simp: handleResult_def handleMultiInteract_def Let_def
      split: prod.splits sum.splits)

subsection \<open>Concrete runs\<close>

lemmas run_defs = multiInteract_def defaultOptions_def copyWithBigint_def alloc_def deref_def
  assign_def emit_def truthy_def handleMultiInteract_def Let_def state0_def emptyOptions_def
  OpenZeppelinAccount_getMessageHash_def ArgentAccount_getMessageHash_def ArgentAccount_hashable_def
  OpenZeppelinAccount_getSignatures_def ArgentAccount_getSignatures_def signMultiCall_def
  interact_def estimateFee_def Account_call_def rawOutputOptions_def multiCall_def

lemma runA:
  "multiInteract env0 (OpenZeppelin oz0) INVOKE [] (Some 0) (state0 (emptyOptions\<lparr>nonce := Some 7\<rparr>)) =
     (Inr (TxHash ''0x1''),
      \<lparr>heap = [\<lparr>maxFee = None, nonce = Some 7, signature = None, rawOutput = None\<rparr>,
               \<lparr>maxFee = Some 0, nonce = None, signature = None, rawOutput = None\<rparr>],
        trace = [Interact INVOKE ''0xacc'' ''__execute__''
                   \<lparr>call_array = [], args_calldata = [], args_nonce = ''7''\<rparr>
                   \<lparr>maxFee = Some 0, nonce = None, signature = Some [7, 19], rawOutput = None\<rparr>]\<rparr>)"
  by (simp add: run_defs oz0_def env0_simps toString_values)

lemma runB:
  "multiInteract env0 (Argent argent0) INVOKE calls0 (Some 0)
       (state0 (emptyOptions\<lparr>signature := Some [1, 2]\<rparr>)) =
     (Inl UnsupportedOverrideError,
      \<lparr>heap = [\<lparr>maxFee = None, nonce = None, signature = Some [1, 2], rawOutput = None\<rparr>,
               \<lparr>maxFee = Some 0, nonce = None, signature = Some [1, 2], rawOutput = None\<rparr>],
        trace = [ContractCall ''0xacc'' ''get_nonce'', AdaptInput ''0xa'' ''foo'',
                 AdaptInput ''0xb'' ''bar'', AdaptInput ''0xa'' ''baz'']\<rparr>)"
  by (simp add: run_defs argent0_def hre0_def calls0_def contractA_def contractB_def env0_simps
      toString_values parseBigInt_values hexOfBytes_SN)

lemma runC:
  "multiInteract env0 (OpenZeppelin oz0) INVOKE [] (Some 0) (state0 (emptyOptions\<lparr>nonce := Some 0\<rparr>)) =
     (Inr (TxHash ''0x1''),
      \<lparr>heap = [\<lparr>maxFee = None, nonce = Some 0, signature = None, rawOutput = None\<rparr>,
               \<lparr>maxFee = Some 0, nonce = None, signature = None, rawOutput = None\<rparr>],
        trace = [ContractCall ''0xacc'' ''get_nonce'',
                 Interact INVOKE ''0xacc'' ''__execute__''
                   \<lparr>call_array = [], args_calldata = [], args_nonce = ''5''\<rparr>
                   \<lparr>maxFee = Some 0, nonce = None, signature = Some [7, 19], rawOutput = None\<rparr>]\<rparr>)"
  by (simp add: run_defs oz0_def env0_simps toString_values)

lemma runD:
  "estimateFee env0 (Argent argent0) contractA ''foo'' None None (state0 emptyOptions) =
     (Inr (FeeEstimation 0 ''wei''),
      \<lparr>heap = [\<lparr>maxFee = None, nonce = None, signature = None, rawOutput = None\<rparr>,
               \<lparr>maxFee = None, nonce = None, signature = None, rawOutput = None\<rparr>,
               \<lparr>maxFee = Some 0, nonce = None, signature = None, rawOutput = None\<rparr>],
        trace = [ContractCall ''0xacc'' ''get_nonce'', AdaptInput ''0xa'' ''foo'',
                 Interact ESTIMATE_FEE ''0xacc'' ''__execute__''
                   \<lparr>call_array = [\<lparr>to = 10, selector = 3, data_offset = 0, data_len = 0\<rparr>],
                      args_calldata = [], args_nonce = ''5''\<rparr>
                   \<lparr>maxFee = Some 0, nonce = None, signature = Some [7, 8, 9, 10], rawOutput = None\<rparr>]\<rparr>)"
  by (simp add: run_defs argent0_def hre0_def contractA_def env0_simps
      toString_values parseBigInt_values hexOfBytes_SN)

lemma runE:
  "Account_call env0 (Argent argent0) contractA ''foo'' None None (state0 emptyOptions) =
     (Inr [],
      \<lparr>heap = [\<lparr>maxFee = None, nonce = None, signature = None, rawOutput = None\<rparr>,
               \<lparr>maxFee = None, nonce = None, signature = None, rawOutput = None\<rparr>,
               \<lparr>maxFee = None, nonce = None, signature = None, rawOutput = Some True\<rparr>,
               \<lparr>maxFee = Some 0, nonce = None, signature = None, rawOutput = Some True\<rparr>],
        trace = [ContractCall ''0xacc'' ''get_nonce'', AdaptInput ''0xa'' ''foo'',
                 Interact CALL ''0xacc'' ''__execute__''
                   \<lparr>call_array = [\<lparr>to = 10, selector = 3, data_offset = 0, data_len = 0\<rparr>],
                      args_calldata = [], args_nonce = ''5''\<rparr>
                   \<lparr>maxFee = Some 0, nonce = None, signature = Some [7, 8, 9, 10], rawOutput = Some True\<rparr>,
                 AdaptOutput ''0xa'' ''foo'']\<rparr>)"
  by (simp add: run_defs argent0_def hre0_def contractA_def env0_simps
      toString_values parseBigInt_values hexOfBytes_SN)

lemma runB_reject:
  "multiInteract envReject (Argent argent0) INVOKE calls0 (Some 0)
       (state0 (emptyOptions\<lparr>signature := Some [1, 2]\<rparr>)) =
     (Inl CalldataEncodingError,
      \<lparr>heap = [\<lparr>maxFee = None, nonce = None, signature = Some [1, 2], rawOutput = None\<rparr>,
               \<lparr>maxFee = Some 0, nonce = None, signature = Some [1, 2], rawOutput = None\<rparr>],
        trace = [ContractCall ''0xacc'' ''get_nonce'', AdaptInput ''0xa'' ''foo'']\<rparr>)"
  by (simp add: run_defs envReject_def argent0_def hre0_def calls0_def contractA_def contractB_def
      env0_simps)

lemma handle_calls0:
  "fst (handleMultiInteract env0 (Argent argent0) ''0xacc'' calls0 5 0 0 s) =
     Inr (''7'',
          \<lparr>call_array =
             [\<lparr>to = 10, selector = 3, data_offset = 0, data_len = 1\<rparr>,
              \<lparr>to = 11, selector = 3, data_offset = 1, data_len = 0\<rparr>,
              \<lparr>to = 10, selector = 3, data_offset = 1, data_len = 2\<rparr>],
           args_calldata = [Num 1, Num 2, Num 3],
           args_nonce = ''5''\<rparr>)"
  by (simp add: run_defs argent0_def hre0_def calls0_def contractA_def contractB_def env0_simps
      toString_values parseBigInt_values hexOfBytes_SN split: prod.splits)

lemma truthy_fee: "(case truthy v of None \<Rightarrow> 0 | Some f \<Rightarrow> f) = (case v of None \<Rightarrow> 0 | Some f \<Rightarrow> f)"
  by (simp add: truthy_def split: option.splits)

lemma truthy_nonzero: "v \<noteq> Some 0 \<Longrightarrow> truthy v = v"
  by (simp add: truthy_def split: option.splits)

lemma handle_calls0_reject:
  "fst (handleMultiInteract envReject (Argent argent0) ''0xacc'' calls0 5 0 0 s) =
     Inl CalldataEncodingError"
  by (simp add: run_defs envReject_def calls0_def split: prod.splits)

section \<open>Properties\<close>

text \<open>
  C3. Whenever \<^verbatim>\<open>handleMultiInteract\<close> returns, its \<^verbatim>\<open>call_array\<close> has one descriptor for
  each of the caller's calls, in their order, and its \<^verbatim>\<open>calldata\<close> is the concatenation
  of what \<^verbatim>\<open>adaptInput\<close> returned for the calls: the descriptor's \<^verbatim>\<open>data_offset\<close> is the
  length of the encodings of the calls before it (the length of \<^verbatim>\<open>rawCalldata\<close> when it
  was pushed), its \<^verbatim>\<open>data_len\<close> is the length of the call's own encoding, the slice of
  the flat calldata it names is that encoding, and the descriptors tile the flat calldata
  from 0 to its length. Nothing is asked of the encodings, so an empty one is allowed.
  And \<^verbatim>\<open>handleMultiInteract\<close> does return when \<^verbatim>\<open>adaptInput\<close> accepts every call,
  \<^verbatim>\<open>BigInt\<close> accepts every contract address and, for an Argent account, the chain id.
\<close>

theorem aggregation_tiles_flat_calldata:
  "(\<forall>messageHash args s'.
      handleMultiInteract env this accountAddress cps nonceV maxFeeV version s =
        (Inr (messageHash, args), s') \<longrightarrow>
      (\<exists>encoded.
         length encoded = length cps \<and> length (call_array args) = length cps \<and>
         args_calldata args = concat encoded \<and>
         (\<forall>i<length cps.
            adaptInput env (toContract (cps ! i)) (functionName (cps ! i)) (calldata (cps ! i)) =
              Inr (encoded ! i) \<and>
            BigInt env (address (toContract (cps ! i))) = Some (to (call_array args ! i)) \<and>
            selector (call_array args ! i) = starknetKeccak env (functionName (cps ! i)) \<and>
            data_offset (call_array args ! i) = length (concat (take i encoded)) \<and>
            data_len (call_array args ! i) = length (encoded ! i) \<and>
            take (data_len (call_array args ! i))
              (drop (data_offset (call_array args ! i)) (args_calldata args)) = encoded ! i) \<and>
         tiles (call_array args) 0 (length (args_calldata args)))) \<and>
   (list_all (\<lambda>cp. (\<exists>cd. adaptInput env (toContract cp) (functionName cp) (calldata cp) = Inr cd) \<and>
                    BigInt env (address (toContract cp)) \<noteq> None) cps \<and>
    (\<forall>a. this = Argent a \<longrightarrow> BigInt env (''0x'' @ hexOfBytes (starknetChainId (hre a))) \<noteq> None) \<longrightarrow>
    (\<exists>messageHash args.
       fst (handleMultiInteract env this accountAddress cps nonceV maxFeeV version s) =
         Inr (messageHash, args)))"
proof (intro conjI allI impI)
  fix messageHash args s'
  assume run: "handleMultiInteract env this accountAddress cps nonceV maxFeeV version s =
        (Inr (messageHash, args), s')"
  obtain r s1 where m: "callArray_map env cps s = (r, s1)" by (cases "callArray_map env cps s")
  with run obtain cs where r: "r = Inr cs"
    by (cases r) (simp_all add: handleMultiInteract_def)
  from m r have mf: "fst (callArray_map env cps s) = Inr cs" by simp
  from run m r obtain ds raw where f: "executeCallArray_forEach env cs [] [] = Inr (ds, raw)"
    by (cases "executeCallArray_forEach env cs [] []") (auto simp: handleMultiInteract_def)
  from run m r f have args: "call_array args = ds" "args_calldata args = raw"
    by (auto simp: handleMultiInteract_def Let_def split: sum.splits)
  from descriptors_of_calls [OF mf f] args
  show "\<exists>encoded.
         length encoded = length cps \<and> length (call_array args) = length cps \<and>
         args_calldata args = concat encoded \<and>
         (\<forall>i<length cps.
            adaptInput env (toContract (cps ! i)) (functionName (cps ! i)) (calldata (cps ! i)) =
              Inr (encoded ! i) \<and>
            BigInt env (address (toContract (cps ! i))) = Some (to (call_array args ! i)) \<and>
            selector (call_array args ! i) = starknetKeccak env (functionName (cps ! i)) \<and>
            data_offset (call_array args ! i) = length (concat (take i encoded)) \<and>
            data_len (call_array args ! i) = length (encoded ! i) \<and>
            take (data_len (call_array args ! i))
              (drop (data_offset (call_array args ! i)) (args_calldata args)) = encoded ! i) \<and>
         tiles (call_array args) 0 (length (args_calldata args))"
    by simp
next
  assume h: "list_all (\<lambda>cp. (\<exists>cd. adaptInput env (toContract cp) (functionName cp) (calldata cp) = Inr cd) \<and>
                    BigInt env (address (toContract cp)) \<noteq> None) cps \<and>
    (\<forall>a. this = Argent a \<longrightarrow> BigInt env (''0x'' @ hexOfBytes (starknetChainId (hre a))) \<noteq> None)"
  then have enc: "\<forall>cp\<in>set cps. \<exists>cd. adaptInput env (toContract cp) (functionName cp) (calldata cp) = Inr cd"
    and adr: "\<forall>cp\<in>set cps. BigInt env (address (toContract cp)) \<noteq> None"
    and chain: "\<forall>a. this = Argent a \<longrightarrow> BigInt env (''0x'' @ hexOfBytes (starknetChainId (hre a))) \<noteq> None"
    by (simp_all add: list_all_iff)
  from callArray_map_succeeds [OF enc, of s] obtain cs where mf: "fst (callArray_map env cps s) = Inr cs"
    by blast
  from callArray_map_Inr [OF mf] have len: "length cs = length cps"
    and ca: "\<forall>i<length cps. contractAddress (cs ! i) = address (toContract (cps ! i))"
    by simp_all
  have "list_all (\<lambda>c. BigInt env (contractAddress c) \<noteq> None) cs"
    unfolding list_all_length
  proof (intro allI impI)
    fix i assume i: "i < length cs"
    with len have i': "i < length cps" by simp
    then have "cps ! i \<in> set cps" by simp
    with adr ca i' show "BigInt env (contractAddress (cs ! i)) \<noteq> None" by simp
  qed
  from forEach_general [OF this, of "[]" "[]"]
  obtain ds raw where f: "executeCallArray_forEach env cs [] [] = Inr (ds, raw)" by auto
  have "\<exists>h. getMessageHash env this accountAddress cs (toString 10 nonceV)
            (''0x'' @ toString 16 maxFeeV) (''0x'' @ toString 16 version) = Inr h"
  proof (cases this)
    case (OpenZeppelin a)
    then show ?thesis by (simp add: OpenZeppelinAccount_getMessageHash_def)
  next
    case (Argent a)
    with chain obtain c where "BigInt env (''0x'' @ hexOfBytes (starknetChainId (hre a))) = Some c"
      by auto
    with Argent show ?thesis by (simp add: ArgentAccount_getMessageHash_def Let_def)
  qed
  then obtain h where h: "getMessageHash env this accountAddress cs (toString 10 nonceV)
            (''0x'' @ toString 16 maxFeeV) (''0x'' @ toString 16 version) = Inr h" by blast
  obtain r s1 where m: "callArray_map env cps s = (r, s1)" by (cases "callArray_map env cps s")
  with mf have "r = Inr cs" by simp
  with m f h show "\<exists>messageHash args.
       fst (handleMultiInteract env this accountAddress cps nonceV maxFeeV version s) =
         Inr (messageHash, args)"
    by (simp add: handleMultiInteract_def Let_def)
qed

theorem aggregation_tiles_witness:
  "list_all (\<lambda>cp. (\<exists>cd. adaptInput env0 (toContract cp) (functionName cp) (calldata cp) = Inr cd) \<and>
                    BigInt env0 (address (toContract cp)) \<noteq> None) calls0 \<and>
   BigInt env0 (''0x'' @ hexOfBytes (starknetChainId (hre argent0))) = Some 21326 \<and>
   fst (handleMultiInteract env0 (Argent argent0) ''0xacc'' calls0 5 0 0 (state0 emptyOptions)) =
     Inr (''7'',
          \<lparr>call_array =
             [\<lparr>to = 10, selector = 3, data_offset = 0, data_len = 1\<rparr>,
              \<lparr>to = 11, selector = 3, data_offset = 1, data_len = 0\<rparr>,
              \<lparr>to = 10, selector = 3, data_offset = 1, data_len = 2\<rparr>],
           args_calldata = [Num 1, Num 2, Num 3],
           args_nonce = ''5''\<rparr>) \<and>
   tiles [\<lparr>to = 10, selector = 3, data_offset = 0, data_len = 1\<rparr>,
          \<lparr>to = 11, selector = 3, data_offset = 1, data_len = 0\<rparr>,
          \<lparr>to = 10, selector = 3, data_offset = 1, data_len = 2\<rparr>] 0 3"
proof -
  let ?args = "\<lparr>call_array =
             [\<lparr>to = 10, selector = 3, data_offset = 0, data_len = 1\<rparr>,
              \<lparr>to = 11, selector = 3, data_offset = 1, data_len = 0\<rparr>,
              \<lparr>to = 10, selector = 3, data_offset = 1, data_len = 2\<rparr>],
           args_calldata = [Num 1, Num 2, Num 3],
           args_nonce = ''5''\<rparr>"
  let ?run = "handleMultiInteract env0 (Argent argent0) ''0xacc'' calls0 5 0 0 (state0 emptyOptions)"
  have h1: "list_all (\<lambda>cp. (\<exists>cd. adaptInput env0 (toContract cp) (functionName cp) (calldata cp) = Inr cd) \<and>
                    BigInt env0 (address (toContract cp)) \<noteq> None) calls0"
    by (simp add: calls0_def contractA_def contractB_def env0_simps parseBigInt_values)
  have h2: "BigInt env0 (''0x'' @ hexOfBytes (starknetChainId (hre argent0))) = Some 21326"
    by (simp add: env0_simps argent0_def hre0_def hexOfBytes_SN parseBigInt_values)
  have f: "fst ?run = Inr (''7'', ?args)"
    by (rule handle_calls0)
  then have run: "?run = (Inr (''7'', ?args), snd ?run)"
    by (cases ?run) simp
  note T = aggregation_tiles_flat_calldata [of env0 "Argent argent0" "''0xacc''" calls0 5 0 0
      "state0 emptyOptions"]
  from T h1 h2 have "\<exists>messageHash args. fst ?run = Inr (messageHash, args)" by simp
  moreover from T run have "tiles (call_array ?args) 0 (length (args_calldata ?args))" by blast
  ultimately show ?thesis using h1 h2 f by simp
qed

text \<open>
  C4. The three calls (A, foo, {x: 1}), (B, bar, {}), (A, baz, {y: 2, z: 3}), whose
  encoded calldata are \<open>[x]\<close>, \<open>[]\<close> and \<open>[y, z]\<close>: \<^verbatim>\<open>handleMultiInteract\<close> of an Argent
  account returns the descriptors with offsets 0, 1, 1 and lengths 1, 0, 2 and the flat
  calldata \<open>[x, y, z]\<close>, and the message hash is computed from the sequence
  3, A, selector of foo, 0, 1, B, selector of bar, 1, 0, A, selector of baz, 1, 2, 3,
  followed by the flat calldata and the nonce.
\<close>

theorem three_call_scenario:
  assumes "adaptInput env cA ''foo'' (Some [(''x'', 1)]) = Inr [x]"
    and "adaptInput env cB ''bar'' (Some []) = Inr []"
    and "adaptInput env cA ''baz'' (Some [(''y'', 2), (''z'', 3)]) = Inr [y, z]"
    and "BigInt env (address cA) = Some a"
    and "BigInt env (address cB) = Some b"
    and "BigInt env (''0x'' @ hexOfBytes (starknetChainId (hre this))) = Some chain"
  shows "fst (handleMultiInteract env (Argent this) accountAddress
            [\<lparr>toContract = cA, functionName = ''foo'', calldata = Some [(''x'', 1)]\<rparr>,
             \<lparr>toContract = cB, functionName = ''bar'', calldata = Some []\<rparr>,
             \<lparr>toContract = cA, functionName = ''baz'', calldata = Some [(''y'', 2), (''z'', 3)]\<rparr>]
            nonceV fee version s) =
         Inr (computeHashOnElements env
                [TransactionHashPrefix_INVOKE env,
                 Str (''0x'' @ toString 16 version),
                 Str accountAddress,
                 Str (getSelectorFromName env ''__execute__''),
                 Str (computeHashOnElements env
                   [Num 3,
                    Str (address cA), BN (starknetKeccak env ''foo''), Num 0, Num 1,
                    Str (address cB), BN (starknetKeccak env ''bar''), Num 1, Num 0,
                    Str (address cA), BN (starknetKeccak env ''baz''), Num 1, Num 2,
                    Num 3, x, y, z, Str (toString 10 nonceV)]),
                 Str (''0x'' @ toString 16 fee),
                 Str (toString 10 chain)],
              \<lparr>call_array =
                 [\<lparr>to = a, selector = starknetKeccak env ''foo'', data_offset = 0, data_len = 1\<rparr>,
                  \<lparr>to = b, selector = starknetKeccak env ''bar'', data_offset = 1, data_len = 0\<rparr>,
                  \<lparr>to = a, selector = starknetKeccak env ''baz'', data_offset = 1, data_len = 2\<rparr>],
               args_calldata = [x, y, z],
               args_nonce = toString 10 nonceV\<rparr>)"
  using assms
  by (simp add: handleMultiInteract_def ArgentAccount_getMessageHash_def
      ArgentAccount_hashable_def Let_def)

theorem three_call_scenario_witness:
  "adaptInput env0 contractA ''foo'' (Some [(''x'', 1)]) = Inr [Num 1] \<and>
   adaptInput env0 contractB ''bar'' (Some []) = Inr [] \<and>
   adaptInput env0 contractA ''baz'' (Some [(''y'', 2), (''z'', 3)]) = Inr [Num 2, Num 3] \<and>
   BigInt env0 (address contractA) = Some 10 \<and>
   BigInt env0 (address contractB) = Some 11 \<and>
   BigInt env0 (''0x'' @ hexOfBytes (starknetChainId (hre argent0))) = Some 21326 \<and>
   fst (handleMultiInteract env0 (Argent argent0) ''0xacc'' calls0 5 0 0 (state0 emptyOptions)) =
     Inr (''7'',
          \<lparr>call_array =
             [\<lparr>to = 10, selector = 3, data_offset = 0, data_len = 1\<rparr>,
              \<lparr>to = 11, selector = 3, data_offset = 1, data_len = 0\<rparr>,
              \<lparr>to = 10, selector = 3, data_offset = 1, data_len = 2\<rparr>],
           args_calldata = [Num 1, Num 2, Num 3],
           args_nonce = ''5''\<rparr>)"
proof -
  have h1: "adaptInput env0 contractA ''foo'' (Some [(''x'', 1)]) = Inr [Num 1]"
    and h2: "adaptInput env0 contractB ''bar'' (Some []) = Inr []"
    and h3: "adaptInput env0 contractA ''baz'' (Some [(''y'', 2), (''z'', 3)]) = Inr [Num 2, Num 3]"
    by (simp_all add: env0_simps)
  have h4: "BigInt env0 (address contractA) = Some 10"
    and h5: "BigInt env0 (address contractB) = Some 11"
    by (simp_all add: env0_simps contractA_def contractB_def parseBigInt_values)
  have h6: "BigInt env0 (''0x'' @ hexOfBytes (starknetChainId (hre argent0))) = Some 21326"
    by (simp add: env0_simps argent0_def hre0_def hexOfBytes_SN parseBigInt_values)
  from three_call_scenario [OF h1 h2 h3 h4 h5 h6, of "''0xacc''" 5 0 0 "state0 emptyOptions"]
  have "fst (handleMultiInteract env0 (Argent argent0) ''0xacc'' calls0 5 0 0 (state0 emptyOptions)) =
     Inr (''7'',
          \<lparr>call_array =
             [\<lparr>to = 10, selector = 3, data_offset = 0, data_len = 1\<rparr>,
              \<lparr>to = 11, selector = 3, data_offset = 1, data_len = 0\<rparr>,
              \<lparr>to = 10, selector = 3, data_offset = 1, data_len = 2\<rparr>],
           args_calldata = [Num 1, Num 2, Num 3],
           args_nonce = ''5''\<rparr>)"
    by (simp add: calls0_def env0_simps toString_values)
  with h1 h2 h3 h4 h5 h6 show ?thesis by simp
qed

text \<open>
  C7. \<^verbatim>\<open>getAccountFromAddress\<close> of either variant, once the artifacts are resolved, the
  contract at the address is taken and its stored public key is read: when
  \<^verbatim>\<open>BigInt\<close> of the public key derived from the private key differs from the key read
  back, the result is the key mismatch error and no account; when they agree, the result
  is the account of that contract (for Argent with the guardian fields
  \<^verbatim>\<open>"0"\<close>, \<^verbatim>\<open>"0"\<close>, \<^verbatim>\<open>null\<close>).
\<close>

theorem getAccountFromAddress_checks_public_key:
  "(handleAccountContractArtifacts env ''OpenZeppelinAccount'' ''Account'' ''0.1.0'' h = Inr path \<and>
    getContractFactory env h path = Inr factory \<and>
    getContractAt env factory addr = Inr contract \<and>
    callContract env contract ''get_public_key'' ''res'' = Inr expectedPubKey \<and>
    BigInt env (getStarkKey env (getKeyPair env (toBN_hex env (drop 2 privKey)))) = Some derived \<longrightarrow>
    fst (OpenZeppelinAccount_getAccountFromAddress env addr privKey h s) =
      (if derived \<noteq> expectedPubKey then Inl KeyMismatchError
       else Inr \<lparr>starknetContract = contract, privateKey = privKey,
                 publicKey = getStarkKey env (getKeyPair env (toBN_hex env (drop 2 privKey))),
                 keyPair = Some (getKeyPair env (toBN_hex env (drop 2 privKey))), hre = h\<rparr>)) \<and>
   (handleAccountContractArtifacts env ''ArgentAccount'' ''ArgentAccount'' ''0.2.1'' h = Inr path' \<and>
    getContractFactory env h path' = Inr factory' \<and>
    getContractAt env factory' addr = Inr contract' \<and>
    callContract env contract' ''get_signer'' ''signer'' = Inr expectedPubKey' \<and>
    BigInt env (getStarkKey env (getKeyPair env (toBN_hex env (drop 2 privKey)))) = Some derived \<longrightarrow>
    fst (ArgentAccount_getAccountFromAddress env addr privKey h s) =
      (if derived \<noteq> expectedPubKey' then Inl KeyMismatchError
       else Inr \<lparr>starknetContract = contract', privateKey = privKey,
                 publicKey = getStarkKey env (getKeyPair env (toBN_hex env (drop 2 privKey))),
                 keyPair = Some (getKeyPair env (toBN_hex env (drop 2 privKey))), hre = h,
                 guardianPublicKey = ''0'', guardianPrivateKey = ''0'', guardianKeyPair = None\<rparr>))"
  by (simp add: OpenZeppelinAccount_getAccountFromAddress_def
      ArgentAccount_getAccountFromAddress_def Let_def)

theorem getAccountFromAddress_witness:
  "fst (OpenZeppelinAccount_getAccountFromAddress env0 ''0xacc'' ''0x123'' hre0 (state0 emptyOptions)) =
     Inr \<lparr>starknetContract = \<lparr>address = ''0xacc''\<rparr>, privateKey = ''0x123'',
           publicKey = ''0x123'', keyPair = Some (KeyPair 291), hre = hre0\<rparr> \<and>
   fst (ArgentAccount_getAccountFromAddress env0 ''0xacc'' ''0x123'' hre0 (state0 emptyOptions)) =
     Inr \<lparr>starknetContract = \<lparr>address = ''0xacc''\<rparr>, privateKey = ''0x123'',
           publicKey = ''0x123'', keyPair = Some (KeyPair 291), hre = hre0,
           guardianPublicKey = ''0'', guardianPrivateKey = ''0'', guardianKeyPair = None\<rparr> \<and>
   fst (OpenZeppelinAccount_getAccountFromAddress env0 ''0xacc'' ''0x124'' hre0 (state0 emptyOptions)) =
     Inl KeyMismatchError \<and>
   fst (ArgentAccount_getAccountFromAddress env0 ''0xacc'' ''0x124'' hre0 (state0 emptyOptions)) =
     Inl KeyMismatchError"
proof -
  have k: "toBN_hex env0 ''123'' = 291" "toBN_hex env0 ''124'' = 292"
    by (simp_all add: env0_simps parseBigInt_values)
  have q: "getKeyPair env0 = KeyPair"
    by (simp add: env0_simps)
  have p: "getStarkKey env0 (KeyPair 291) = ''0x123''" "getStarkKey env0 (KeyPair 292) = ''0x124''"
    by (simp_all add: env0_simps toString_values)
  have d: "BigInt env0 ''0x123'' = Some 291" "BigInt env0 ''0x124'' = Some 292"
    by (simp_all add: env0_simps parseBigInt_values)
  have c: "callContract env0 \<lparr>address = ''0xacc''\<rparr> ''get_public_key'' ''res'' = Inr 291"
    "callContract env0 \<lparr>address = ''0xacc''\<rparr> ''get_signer'' ''signer'' = Inr 291"
    by (simp_all add: env0_simps)
  have a: "handleAccountContractArtifacts env0 ''OpenZeppelinAccount'' ''Account'' ''0.1.0'' hre0 = Inr ''Account''"
    "handleAccountContractArtifacts env0 ''ArgentAccount'' ''ArgentAccount'' ''0.2.1'' hre0 = Inr ''ArgentAccount''"
    "getContractFactory env0 hre0 ''Account'' = Inr ''Account''"
    "getContractFactory env0 hre0 ''ArgentAccount'' = Inr ''ArgentAccount''"
    "getContractAt env0 ''Account'' ''0xacc'' = Inr \<lparr>address = ''0xacc''\<rparr>"
    "getContractAt env0 ''ArgentAccount'' ''0xacc'' = Inr \<lparr>address = ''0xacc''\<rparr>"
    by (simp_all add: env0_simps)
  from getAccountFromAddress_checks_public_key [of env0 hre0 "''Account''" "''Account''" "''0xacc''"
      "\<lparr>address = ''0xacc''\<rparr>" 291 "''0x123''" 291 "state0 emptyOptions"
      "''ArgentAccount''" "''ArgentAccount''" "\<lparr>address = ''0xacc''\<rparr>" 291]
  have agree: "fst (OpenZeppelinAccount_getAccountFromAddress env0 ''0xacc'' ''0x123'' hre0 (state0 emptyOptions)) =
     Inr \<lparr>starknetContract = \<lparr>address = ''0xacc''\<rparr>, privateKey = ''0x123'',
           publicKey = ''0x123'', keyPair = Some (KeyPair 291), hre = hre0\<rparr> \<and>
   fst (ArgentAccount_getAccountFromAddress env0 ''0xacc'' ''0x123'' hre0 (state0 emptyOptions)) =
     Inr \<lparr>starknetContract = \<lparr>address = ''0xacc''\<rparr>, privateKey = ''0x123'',
           publicKey = ''0x123'', keyPair = Some (KeyPair 291), hre = hre0,
           guardianPublicKey = ''0'', guardianPrivateKey = ''0'', guardianKeyPair = None\<rparr>"
    by (simp add: a c k q p d)
  from getAccountFromAddress_checks_public_key [of env0 hre0 "''Account''" "''Account''" "''0xacc''"
      "\<lparr>address = ''0xacc''\<rparr>" 291 "''0x124''" 292 "state0 emptyOptions"
      "''ArgentAccount''" "''ArgentAccount''" "\<lparr>address = ''0xacc''\<rparr>" 291]
  have differ: "fst (OpenZeppelinAccount_getAccountFromAddress env0 ''0xacc'' ''0x124'' hre0 (state0 emptyOptions)) =
     Inl KeyMismatchError \<and>
   fst (ArgentAccount_getAccountFromAddress env0 ''0xacc'' ''0x124'' hre0 (state0 emptyOptions)) =
     Inl KeyMismatchError"
    by (simp add: a c k q p d)
  from agree differ show ?thesis by simp
qed

text \<open>
  C8. The message hash is a function of the account address, the call array, the nonce,
  the maximal fee and the version, and for the Argent variant of the configured chain
  id: two Argent accounts with the same chain id, whatever their keys and contracts,
  get the same result, and so do any two OpenZeppelin accounts. \<^verbatim>\<open>getMessageHash\<close>
  takes no state and returns none.
\<close>

theorem getMessageHash_depends_on_inputs_only:
  "(starknetChainId (hre a) = starknetChainId (hre b) \<longrightarrow>
      ArgentAccount_getMessageHash env a accountAddress callArray nonceS maxFeeS version =
      ArgentAccount_getMessageHash env b accountAddress callArray nonceS maxFeeS version) \<and>
   OpenZeppelinAccount_getMessageHash env c accountAddress callArray nonceS maxFeeS version =
   OpenZeppelinAccount_getMessageHash env d accountAddress callArray nonceS maxFeeS version"
  by (simp add: ArgentAccount_getMessageHash_def OpenZeppelinAccount_getMessageHash_def Let_def
      split: option.splits)

theorem getMessageHash_witness:
  "starknetChainId (hre argent0) =
     starknetChainId (hre (argent0\<lparr>keyPair := None, guardianPublicKey := ''0x5''\<rparr>)) \<and>
   ArgentAccount_getMessageHash env0 argent0 ''0xacc'' [] ''5'' ''0x0'' ''0x0'' = Inr ''7'' \<and>
   ArgentAccount_getMessageHash env0 (argent0\<lparr>keyPair := None, guardianPublicKey := ''0x5''\<rparr>)
     ''0xacc'' [] ''5'' ''0x0'' ''0x0'' = Inr ''7'' \<and>
   OpenZeppelinAccount_getMessageHash env0 oz0 ''0xacc'' [] ''5'' ''0x0'' ''0x0'' = Inr ''0xacc50x00x0'' \<and>
   OpenZeppelinAccount_getMessageHash env0 (oz0\<lparr>keyPair := None\<rparr>) ''0xacc'' [] ''5'' ''0x0'' ''0x0'' =
     Inr ''0xacc50x00x0''"
  using getMessageHash_depends_on_inputs_only [of argent0
      "argent0\<lparr>keyPair := None, guardianPublicKey := ''0x5''\<rparr>"
      env0 "''0xacc''" "[]" "''5''" "''0x0''" "''0x0''" oz0 "oz0\<lparr>keyPair := None\<rparr>"]
  by (simp add: argent0_def oz0_def hre0_def ArgentAccount_getMessageHash_def
      OpenZeppelinAccount_getMessageHash_def env0_simps hexOfBytes_SN parseBigInt_values
      toString_values)

text \<open>
  C9. For an Argent account with both key pairs and any message hash, the signature
  array is the signer's signature followed by the guardian's, both computed over that
  message hash, and it is twice as long as the signature array of an OpenZeppelin
  account (with a key pair) for the same message hash.
\<close>

theorem argent_signatures_signer_then_guardian:
  assumes "keyPair this = Some k" and "guardianKeyPair this = Some g" and "keyPair oz = Some k'"
  shows "\<exists>signerSignatures guardianSignatures ozSignatures.
     signMultiCall env (publicKey this) (keyPair this) messageHash = Inr signerSignatures \<and>
     signMultiCall env (guardianPublicKey this) (guardianKeyPair this) messageHash = Inr guardianSignatures \<and>
     ArgentAccount_getSignatures env this messageHash = Inr (signerSignatures @ guardianSignatures) \<and>
     OpenZeppelinAccount_getSignatures env oz messageHash = Inr ozSignatures \<and>
     length (signerSignatures @ guardianSignatures) = 2 * length ozSignatures"
  using assms
  by (simp add: ArgentAccount_getSignatures_def OpenZeppelinAccount_getSignatures_def
      signMultiCall_def split: prod.splits)

theorem argent_signatures_witness:
  "keyPair argent0 = Some (KeyPair 7) \<and> guardianKeyPair argent0 = Some (KeyPair 9) \<and>
   keyPair oz0 = Some (KeyPair 7) \<and>
   ArgentAccount_getSignatures env0 argent0 ''12'' = Inr [7, 9, 9, 11] \<and>
   OpenZeppelinAccount_getSignatures env0 oz0 ''12'' = Inr [7, 9]"
  using argent_signatures_signer_then_guardian [of argent0 "KeyPair 7" "KeyPair 9" oz0 "KeyPair 7"
      env0 "''12''"]
  by (simp add: argent0_def oz0_def ArgentAccount_getSignatures_def
      OpenZeppelinAccount_getSignatures_def signMultiCall_def env0_simps)

text \<open>
  C2. An Argent account whose guardian key pair is null, as every account returned by
  \<^verbatim>\<open>ArgentAccount.getAccountFromAddress\<close> is: \<^verbatim>\<open>getSignatures\<close> fails with the error of
  the missing guardian key for every message hash, and returns no signature array.
\<close>

theorem null_guardian_getSignatures_fails:
  "(guardianKeyPair this = None \<longrightarrow>
      ArgentAccount_getSignatures env this messageHash = Inl GuardianUnavailableError) \<and>
   (\<forall>acct s'. ArgentAccount_getAccountFromAddress env addr privKey h s = (Inr acct, s') \<longrightarrow>
      ArgentAccount_getSignatures env acct messageHash = Inl GuardianUnavailableError)"
proof -
  have a: "ArgentAccount_getSignatures env x messageHash = Inl GuardianUnavailableError"
    if "guardianKeyPair x = None" for x
    using that
    by (simp add: ArgentAccount_getSignatures_def signMultiCall_def split: option.splits prod.splits)
  have b: "guardianKeyPair acct = None"
    if "ArgentAccount_getAccountFromAddress env addr privKey h s = (Inr acct, s')" for acct s'
    using that
    by (auto simp: ArgentAccount_getAccountFromAddress_def Let_def
        split: sum.splits option.splits if_splits)
  show ?thesis using a b by blast
qed

theorem null_guardian_witness:
  "guardianKeyPair (argent0\<lparr>guardianKeyPair := None\<rparr>) = None \<and>
   ArgentAccount_getSignatures env0 (argent0\<lparr>guardianKeyPair := None\<rparr>) ''1'' =
     Inl GuardianUnavailableError \<and>
   ArgentAccount_getAccountFromAddress env0 ''0xacc'' ''0x123'' hre0 (state0 emptyOptions) =
     (Inr \<lparr>starknetContract = \<lparr>address = ''0xacc''\<rparr>, privateKey = ''0x123'',
            publicKey = ''0x123'', keyPair = Some (KeyPair 291), hre = hre0,
            guardianPublicKey = ''0'', guardianPrivateKey = ''0'', guardianKeyPair = None\<rparr>,
      emit (ContractCall ''0xacc'' ''get_signer'') (state0 emptyOptions)) \<and>
   ArgentAccount_getSignatures env0
     \<lparr>starknetContract = \<lparr>address = ''0xacc''\<rparr>, privateKey = ''0x123'',
       publicKey = ''0x123'', keyPair = Some (KeyPair 291), hre = hre0,
       guardianPublicKey = ''0'', guardianPrivateKey = ''0'', guardianKeyPair = None\<rparr> ''1'' =
     Inl GuardianUnavailableError"
proof -
  have run: "ArgentAccount_getAccountFromAddress env0 ''0xacc'' ''0x123'' hre0 (state0 emptyOptions) =
     (Inr \<lparr>starknetContract = \<lparr>address = ''0xacc''\<rparr>, privateKey = ''0x123'',
            publicKey = ''0x123'', keyPair = Some (KeyPair 291), hre = hre0,
            guardianPublicKey = ''0'', guardianPrivateKey = ''0'', guardianKeyPair = None\<rparr>,
      emit (ContractCall ''0xacc'' ''get_signer'') (state0 emptyOptions))"
    by (simp add: ArgentAccount_getAccountFromAddress_def env0_simps parseBigInt_values
        toString_values Let_def)
  from null_guardian_getSignatures_fails [of "argent0\<lparr>guardianKeyPair := None\<rparr>" env0 "''1''"
      "''0xacc''" "''0x123''" hre0 "state0 emptyOptions"] run
  show ?thesis by simp
qed

text \<open>
  C1, as the code has it. When the caller's options hold a signature, \<^verbatim>\<open>multiInteract\<close>
  fails and never calls an interaction command of the contract. The test of
  \<^verbatim>\<open>options.signature\<close> stands after the nonce and after \<^verbatim>\<open>handleMultiInteract\<close>. For
  options whose nonce is absent or is not zero: the nonce is the supplied one, or the one
  the chain returns when none is supplied; the error is the one of the nonce query when
  that fails, else the one of \<^verbatim>\<open>handleMultiInteract\<close> when that fails, else the one of
  the unsupported signature; and the calls made before the error are the query of the
  nonce (when none is supplied) and then the calls of \<^verbatim>\<open>adaptInput\<close>, all of them when
  \<^verbatim>\<open>handleMultiInteract\<close> returns.
\<close>

theorem supplied_signature_never_dispatched:
  assumes r: "r < length (heap s)" and sig: "signature (heap s ! r) \<noteq> None"
  shows "(\<exists>e. fst (multiInteract env this choice cps (Some r) s) = Inl e) \<and>
     dispatchedOptions (newEvents s (snd (multiInteract env this choice cps (Some r) s))) = [] \<and>
     (nonce (heap s ! r) \<noteq> Some 0 \<longrightarrow>
        fst (multiInteract env this choice cps (Some r) s) =
          (case (case nonce (heap s ! r) of
                   None \<Rightarrow> fst (getNonce env this s)
                 | Some n \<Rightarrow> Inr n) of
             Inl e \<Rightarrow> Inl e
           | Inr n \<Rightarrow>
               (case fst (handleMultiInteract env this (address (this_starknetContract this)) cps n
                            (case maxFee (heap s ! r) of None \<Rightarrow> 0 | Some f \<Rightarrow> f)
                            (transactionVersion env choice) s) of
                  Inl e \<Rightarrow> Inl e
                | Inr x \<Rightarrow> Inl UnsupportedOverrideError)) \<and>
        newEvents s (snd (multiInteract env this choice cps (Some r) s)) =
          (case nonce (heap s ! r) of
             None \<Rightarrow> [ContractCall (address (this_starknetContract this)) ''get_nonce'']
           | Some n \<Rightarrow> []) @
          (case (case nonce (heap s ! r) of
                   None \<Rightarrow> fst (getNonce env this s)
                 | Some n \<Rightarrow> Inr n) of
             Inl e \<Rightarrow> []
           | Inr n \<Rightarrow> adaptEvents (take (adaptedCount env cps) cps)) \<and>
        (\<forall>n x.
           (case nonce (heap s ! r) of
              None \<Rightarrow> fst (getNonce env this s)
            | Some n \<Rightarrow> Inr n) = Inr n \<and>
           fst (handleMultiInteract env this (address (this_starknetContract this)) cps n
                  (case maxFee (heap s ! r) of None \<Rightarrow> 0 | Some f \<Rightarrow> f)
                  (transactionVersion env choice) s) = Inr x \<longrightarrow>
           adaptedCount env cps = length cps))"
proof -
  obtain res s' where run: "multiInteract env this choice cps (Some r) s = (res, s')"
    by (cases "multiInteract env this choice cps (Some r) s")
  from multiInteract_effect [OF r run] sig
  obtain evs e where t: "trace s' = trace s @ evs" and d: "dispatchedOptions evs = []"
    and e: "res = Inl e"
    by blast
  from t have n: "newEvents s s' = evs" by (rule newEvents_append)
  have third: "res =
          (case (case nonce (heap s ! r) of
                   None \<Rightarrow> nonceResult env this
                 | Some n \<Rightarrow> Inr n) of
             Inl e \<Rightarrow> Inl e
           | Inr n \<Rightarrow>
               (case handleResult env this (address (this_starknetContract this)) cps n
                            (case maxFee (heap s ! r) of None \<Rightarrow> 0 | Some f \<Rightarrow> f)
                            (transactionVersion env choice) of
                  Inl e \<Rightarrow> Inl e
                | Inr x \<Rightarrow> Inl UnsupportedOverrideError)) \<and>
        newEvents s s' =
          (case nonce (heap s ! r) of
             None \<Rightarrow> [ContractCall (address (this_starknetContract this)) ''get_nonce'']
           | Some n \<Rightarrow> []) @
          (case (case nonce (heap s ! r) of
                   None \<Rightarrow> nonceResult env this
                 | Some n \<Rightarrow> Inr n) of
             Inl e \<Rightarrow> []
           | Inr n \<Rightarrow> adaptEvents (take (adaptedCount env cps) cps))"
    if z: "nonce (heap s ! r) \<noteq> Some 0"
    using run sig unfolding multiInteract_run [OF r] Let_def truthy_fee truthy_nonzero [OF z]
    by (auto simp: newEvents_def nonceEvent_def split: option.splits sum.splits prod.splits)
  from run have fr: "fst (multiInteract env this choice cps (Some r) s) = res"
    and sr: "snd (multiInteract env this choice cps (Some r) s) = s'"
    by simp_all
  show ?thesis
    unfolding fr sr fst_getNonce fst_handleMultiInteract
  proof (intro conjI impI allI)
    show "\<exists>e. res = Inl e" using e by simp
    show "dispatchedOptions (newEvents s s') = []" using d n by simp
  next
    assume z: "nonce (heap s ! r) \<noteq> Some 0"
    from third [OF z] show "res =
          (case (case nonce (heap s ! r) of
                   None \<Rightarrow> nonceResult env this
                 | Some n \<Rightarrow> Inr n) of
             Inl e \<Rightarrow> Inl e
           | Inr n \<Rightarrow>
               (case handleResult env this (address (this_starknetContract this)) cps n
                            (case maxFee (heap s ! r) of None \<Rightarrow> 0 | Some f \<Rightarrow> f)
                            (transactionVersion env choice) of
                  Inl e \<Rightarrow> Inl e
                | Inr x \<Rightarrow> Inl UnsupportedOverrideError))"
      by (rule conjunct1)
    from third [OF z] show "newEvents s s' =
          (case nonce (heap s ! r) of
             None \<Rightarrow> [ContractCall (address (this_starknetContract this)) ''get_nonce'']
           | Some n \<Rightarrow> []) @
          (case (case nonce (heap s ! r) of
                   None \<Rightarrow> nonceResult env this
                 | Some n \<Rightarrow> Inr n) of
             Inl e \<Rightarrow> []
           | Inr n \<Rightarrow> adaptEvents (take (adaptedCount env cps) cps))"
      by (rule conjunct2)
  next
    fix n x
    assume "(case nonce (heap s ! r) of
              None \<Rightarrow> nonceResult env this
            | Some n \<Rightarrow> Inr n) = Inr n \<and>
           handleResult env this (address (this_starknetContract this)) cps n
                  (case maxFee (heap s ! r) of None \<Rightarrow> 0 | Some f \<Rightarrow> f)
                  (transactionVersion env choice) = Inr x"
    then have "handleResult env this (address (this_starknetContract this)) cps n
                  (case maxFee (heap s ! r) of None \<Rightarrow> 0 | Some f \<Rightarrow> f)
                  (transactionVersion env choice) = Inr x"
      by simp
    then show "adaptedCount env cps = length cps" by (rule handleResult_all)
  qed
qed

text \<open>
  The run on options with a signature and no nonce: the error is raised after the query
  of the nonce and the three calls of \<^verbatim>\<open>adaptInput\<close>; and with a contract that rejects
  the calldata the error is the contract's, not the one of the signature.
\<close>

theorem supplied_signature_counterexample:
  "signature (heap (state0 (emptyOptions\<lparr>signature := Some [1, 2]\<rparr>)) ! 0) = Some [1, 2] \<and>
   multiInteract env0 (Argent argent0) INVOKE calls0 (Some 0)
       (state0 (emptyOptions\<lparr>signature := Some [1, 2]\<rparr>)) =
     (Inl UnsupportedOverrideError,
      \<lparr>heap = [\<lparr>maxFee = None, nonce = None, signature = Some [1, 2], rawOutput = None\<rparr>,
               \<lparr>maxFee = Some 0, nonce = None, signature = Some [1, 2], rawOutput = None\<rparr>],
        trace = [ContractCall ''0xacc'' ''get_nonce'', AdaptInput ''0xa'' ''foo'',
                 AdaptInput ''0xb'' ''bar'', AdaptInput ''0xa'' ''baz'']\<rparr>) \<and>
   fst (multiInteract envReject (Argent argent0) INVOKE calls0 (Some 0)
       (state0 (emptyOptions\<lparr>signature := Some [1, 2]\<rparr>))) = Inl CalldataEncodingError"
  by (simp add: runB runB_reject) (simp add: state0_def emptyOptions_def)

theorem supplied_signature_witness:
  "0 < length (heap (state0 (emptyOptions\<lparr>signature := Some [1, 2]\<rparr>))) \<and>
   signature (heap (state0 (emptyOptions\<lparr>signature := Some [1, 2]\<rparr>)) ! 0) = Some [1, 2] \<and>
   nonce (heap (state0 (emptyOptions\<lparr>signature := Some [1, 2]\<rparr>)) ! 0) = None \<and>
   fst (getNonce env0 (Argent argent0) (state0 (emptyOptions\<lparr>signature := Some [1, 2]\<rparr>))) = Inr 5 \<and>
   fst (handleMultiInteract env0 (Argent argent0) ''0xacc'' calls0 5 0 0
          (state0 (emptyOptions\<lparr>signature := Some [1, 2]\<rparr>))) =
     Inr (''7'',
          \<lparr>call_array =
             [\<lparr>to = 10, selector = 3, data_offset = 0, data_len = 1\<rparr>,
              \<lparr>to = 11, selector = 3, data_offset = 1, data_len = 0\<rparr>,
              \<lparr>to = 10, selector = 3, data_offset = 1, data_len = 2\<rparr>],
           args_calldata = [Num 1, Num 2, Num 3],
           args_nonce = ''5''\<rparr>) \<and>
   fst (multiInteract env0 (Argent argent0) INVOKE calls0 (Some 0)
          (state0 (emptyOptions\<lparr>signature := Some [1, 2]\<rparr>))) = Inl UnsupportedOverrideError \<and>
   dispatchedOptions (newEvents (state0 (emptyOptions\<lparr>signature := Some [1, 2]\<rparr>))
     (snd (multiInteract env0 (Argent argent0) INVOKE calls0 (Some 0)
          (state0 (emptyOptions\<lparr>signature := Some [1, 2]\<rparr>))))) = [] \<and>
   newEvents (state0 (emptyOptions\<lparr>signature := Some [1, 2]\<rparr>))
     (snd (multiInteract env0 (Argent argent0) INVOKE calls0 (Some 0)
          (state0 (emptyOptions\<lparr>signature := Some [1, 2]\<rparr>)))) =
     [ContractCall ''0xacc'' ''get_nonce'', AdaptInput ''0xa'' ''foo'',
      AdaptInput ''0xb'' ''bar'', AdaptInput ''0xa'' ''baz''] \<and>
   fst (handleMultiInteract envReject (Argent argent0) ''0xacc'' calls0 5 0 0
          (state0 (emptyOptions\<lparr>signature := Some [1, 2]\<rparr>))) = Inl CalldataEncodingError \<and>
   fst (multiInteract envReject (Argent argent0) INVOKE calls0 (Some 0)
          (state0 (emptyOptions\<lparr>signature := Some [1, 2]\<rparr>))) = Inl CalldataEncodingError"
proof -
  let ?s = "state0 (emptyOptions\<lparr>signature := Some [1, 2]\<rparr>)"
  let ?acct = "Argent argent0"
  have l: "0 < length (heap ?s)" by (simp add: state0_def)
  have g: "signature (heap ?s ! 0) = Some [1, 2]" by (simp add: state0_def emptyOptions_def)
  then have g': "signature (heap ?s ! 0) \<noteq> None" by simp
  have a: "nonce (heap ?s ! 0) = None" by (simp add: state0_def emptyOptions_def)
  then have z: "nonce (heap ?s ! 0) \<noteq> Some 0" by simp
  have f: "maxFee (heap ?s ! 0) = None" by (simp add: state0_def emptyOptions_def)
  have q: "fst (getNonce env0 ?acct ?s) = Inr 5" "fst (getNonce envReject ?acct ?s) = Inr 5"
    by (simp_all add: env0_simps envReject_def)
  have ad: "address (this_starknetContract ?acct) = ''0xacc''"
    by (simp add: argent0_def)
  have v: "transactionVersion env0 INVOKE = 0" "transactionVersion envReject INVOKE = 0"
    by (simp_all add: env0_simps envReject_def)
  note h = handle_calls0 [of ?s]
  note hr = handle_calls0_reject [of ?s]
  note T = supplied_signature_never_dispatched [OF l g', of env0 ?acct INVOKE calls0,
      unfolded a f q ad v h option.case sum.case]
  note R = supplied_signature_never_dispatched [OF l g', of envReject ?acct INVOKE calls0,
      unfolded a f q ad v hr option.case sum.case]
  from T have 1: "dispatchedOptions (newEvents ?s (snd (multiInteract env0 ?acct INVOKE calls0 (Some 0) ?s))) = []"
    and 2: "fst (multiInteract env0 ?acct INVOKE calls0 (Some 0) ?s) = Inl UnsupportedOverrideError"
    and 3: "newEvents ?s (snd (multiInteract env0 ?acct INVOKE calls0 (Some 0) ?s)) =
        [ContractCall ''0xacc'' ''get_nonce''] @ adaptEvents (take (adaptedCount env0 calls0) calls0)"
    and 4: "adaptedCount env0 calls0 = length calls0"
    by (simp_all add: h dispatchedOptions_adaptEvents)
  from R have 5: "fst (multiInteract envReject ?acct INVOKE calls0 (Some 0) ?s) = Inl CalldataEncodingError"
    by simp
  have ev: "adaptEvents calls0 =
     [AdaptInput ''0xa'' ''foo'', AdaptInput ''0xb'' ''bar'', AdaptInput ''0xa'' ''baz'']"
    by (simp add: adaptEvents_def calls0_def contractA_def contractB_def)
  from 3 4 ev have 6: "newEvents ?s (snd (multiInteract env0 ?acct INVOKE calls0 (Some 0) ?s)) =
     [ContractCall ''0xacc'' ''get_nonce'', AdaptInput ''0xa'' ''foo'',
      AdaptInput ''0xb'' ''bar'', AdaptInput ''0xa'' ''baz'']"
    by simp
  from l g a q(1) h 2 1 6 hr 5 show ?thesis by simp
qed

text \<open>
  C5. The run of \<^verbatim>\<open>multiInteract\<close> on options whose nonce is 0, on a chain that holds the
  nonce 5: \<^verbatim>\<open>options.nonce || (await this.getNonce())\<close> takes the right operand, so the
  chain is queried and the transaction carries the nonce 5, not the supplied 0.
\<close>

theorem zero_nonce_replaced_by_chain_nonce:
  "nonce (heap (state0 (emptyOptions\<lparr>nonce := Some 0\<rparr>)) ! 0) = Some 0 \<and>
   callContract env0 (starknetContract oz0) ''get_nonce'' ''res'' = Inr 5 \<and>
   newEvents (state0 (emptyOptions\<lparr>nonce := Some 0\<rparr>))
     (snd (multiInteract env0 (OpenZeppelin oz0) INVOKE [] (Some 0)
             (state0 (emptyOptions\<lparr>nonce := Some 0\<rparr>)))) =
     [ContractCall ''0xacc'' ''get_nonce'',
      Interact INVOKE ''0xacc'' ''__execute__''
        \<lparr>call_array = [], args_calldata = [], args_nonce = ''5''\<rparr>
        \<lparr>maxFee = Some 0, nonce = None, signature = Some [7, 19], rawOutput = None\<rparr>]"
  by (simp add: runC newEvents_def) (simp add: state0_def emptyOptions_def env0_simps)

text \<open>
  C6, as the code has it. The options that reach the interaction command carry
  \<^verbatim>\<open>rawOutput = true\<close> for \<^verbatim>\<open>call\<close> and \<^verbatim>\<open>multiCall\<close> of a variant with raw output,
  and the caller's own \<^verbatim>\<open>rawOutput\<close> (or none) otherwise: for \<^verbatim>\<open>call\<close> and \<^verbatim>\<open>multiCall\<close>
  of a variant without raw output, and for \<^verbatim>\<open>estimateFee\<close> and \<^verbatim>\<open>multiEstimateFee\<close> of
  either variant.
\<close>

theorem rawOutput_set_for_call_only:
  assumes v: "validOptions options s"
  shows
    "(\<forall>obj\<in>set (dispatchedOptions (newEvents s (snd (Account_call env this toC fn cd options s)))).
        rawOutput obj = (if hasRawOutput this then Some True else givenRawOutput options s)) \<and>
     (\<forall>obj\<in>set (dispatchedOptions (newEvents s (snd (multiCall env this cps options s)))).
        rawOutput obj = (if hasRawOutput this then Some True else givenRawOutput options s)) \<and>
     (\<forall>obj\<in>set (dispatchedOptions (newEvents s (snd (estimateFee env this toC fn cd options s)))).
        rawOutput obj = givenRawOutput options s) \<and>
     (\<forall>obj\<in>set (dispatchedOptions (newEvents s (snd (multiEstimateFee env this cps options s)))).
        rawOutput obj = givenRawOutput options s)"
proof (intro conjI)
  obtain opts s1 where ro: "rawOutputOptions this options s = (opts, s1)"
    by (cases "rawOutputOptions this options s")
  show "\<forall>obj\<in>set (dispatchedOptions (newEvents s (snd (Account_call env this toC fn cd options s)))).
        rawOutput obj = (if hasRawOutput this then Some True else givenRawOutput options s)"
  proof -
    obtain res s2 where run: "multiInteract env this CALL
        [\<lparr>toContract = toC, functionName = fn, calldata = cd\<rparr>] (Some opts) s1 = (res, s2)"
      by (cases "multiInteract env this CALL
        [\<lparr>toContract = toC, functionName = fn, calldata = cd\<rparr>] (Some opts) s1")
    from raw_call_path [OF v ro run]
    obtain evs where t: "trace s2 = trace s @ evs"
      and d: "\<forall>obj\<in>set (dispatchedOptions evs).
              rawOutput obj = (if hasRawOutput this then Some True else givenRawOutput options s)"
      by blast
    have "dispatchedOptions (newEvents s (snd (Account_call env this toC fn cd options s))) =
          dispatchedOptions evs"
      using ro run t
      by (auto simp: Account_call_def interact_def newEvents_def emit_def dispatchedOptions_append
          split: sum.splits Response.splits)
    with d show ?thesis by simp
  qed
  show "\<forall>obj\<in>set (dispatchedOptions (newEvents s (snd (multiCall env this cps options s)))).
        rawOutput obj = (if hasRawOutput this then Some True else givenRawOutput options s)"
  proof -
    obtain res s2 where run: "multiInteract env this CALL cps (Some opts) s1 = (res, s2)"
      by (cases "multiInteract env this CALL cps (Some opts) s1")
    from raw_call_path [OF v ro run]
    obtain evs where t: "trace s2 = trace s @ evs"
      and d: "\<forall>obj\<in>set (dispatchedOptions evs).
              rawOutput obj = (if hasRawOutput this then Some True else givenRawOutput options s)"
      by blast
    have "dispatchedOptions (newEvents s (snd (multiCall env this cps options s))) =
          dispatchedOptions evs"
      using ro run t
      by (auto simp: multiCall_def newEvents_def split: sum.splits Response.splits)
    with d show ?thesis by simp
  qed
  show "\<forall>obj\<in>set (dispatchedOptions (newEvents s (snd (estimateFee env this toC fn cd options s)))).
        rawOutput obj = givenRawOutput options s"
  proof -
    obtain res s2 where run: "multiInteract env this ESTIMATE_FEE
        [\<lparr>toContract = toC, functionName = fn, calldata = cd\<rparr>] options s = (res, s2)"
      by (cases "multiInteract env this ESTIMATE_FEE
        [\<lparr>toContract = toC, functionName = fn, calldata = cd\<rparr>] options s")
    from multiInteract_rawOutput [OF v run] run show ?thesis
      by (auto simp: estimateFee_def interact_def newEvents_def)
  qed
  show "\<forall>obj\<in>set (dispatchedOptions (newEvents s (snd (multiEstimateFee env this cps options s)))).
        rawOutput obj = givenRawOutput options s"
  proof -
    obtain res s2 where run: "multiInteract env this ESTIMATE_FEE cps options s = (res, s2)"
      by (cases "multiInteract env this ESTIMATE_FEE cps options s")
    from multiInteract_rawOutput [OF v run] run show ?thesis
      by (auto simp: multiEstimateFee_def newEvents_def)
  qed
qed

theorem rawOutput_witness:
  "validOptions None (state0 emptyOptions) \<and>
   hasRawOutput (Argent argent0) \<and>
   dispatchedOptions (newEvents (state0 emptyOptions)
     (snd (Account_call env0 (Argent argent0) contractA ''foo'' None None (state0 emptyOptions)))) =
     [\<lparr>maxFee = Some 0, nonce = None, signature = Some [7, 8, 9, 10], rawOutput = Some True\<rparr>] \<and>
   dispatchedOptions (newEvents (state0 emptyOptions)
     (snd (estimateFee env0 (Argent argent0) contractA ''foo'' None None (state0 emptyOptions)))) =
     [\<lparr>maxFee = Some 0, nonce = None, signature = Some [7, 8, 9, 10], rawOutput = None\<rparr>] \<and>
   givenRawOutput None (state0 emptyOptions) = None"
proof -
  have v: "validOptions None (state0 emptyOptions)"
    by (simp add: validOptions_def)
  have c: "dispatchedOptions (newEvents (state0 emptyOptions)
     (snd (Account_call env0 (Argent argent0) contractA ''foo'' None None (state0 emptyOptions)))) =
     [\<lparr>maxFee = Some 0, nonce = None, signature = Some [7, 8, 9, 10], rawOutput = Some True\<rparr>]"
    by (simp add: runE newEvents_def) (simp add: state0_def)
  have e: "dispatchedOptions (newEvents (state0 emptyOptions)
     (snd (estimateFee env0 (Argent argent0) contractA ''foo'' None None (state0 emptyOptions)))) =
     [\<lparr>maxFee = Some 0, nonce = None, signature = Some [7, 8, 9, 10], rawOutput = None\<rparr>]"
    by (simp add: runD newEvents_def) (simp add: state0_def)
  from rawOutput_set_for_call_only [OF v, of env0 "Argent argent0" contractA "''foo''" None "[]"]
  have "\<forall>obj\<in>set (dispatchedOptions (newEvents (state0 emptyOptions)
     (snd (Account_call env0 (Argent argent0) contractA ''foo'' None None (state0 emptyOptions))))).
        rawOutput obj = (if hasRawOutput (Argent argent0) then Some True
                         else givenRawOutput None (state0 emptyOptions))"
    by blast
  with v c e show ?thesis by (simp add: givenRawOutput_def)
qed

text \<open>
  \<^verbatim>\<open>estimateFee\<close> of an Argent account, which has raw output: the options that reach the
  interaction command have no \<^verbatim>\<open>rawOutput\<close>.
\<close>

theorem rawOutput_estimateFee_counterexample:
  "hasRawOutput (Argent argent0) \<and>
   map rawOutput (dispatchedOptions (newEvents (state0 emptyOptions)
     (snd (estimateFee env0 (Argent argent0) contractA ''foo'' None None (state0 emptyOptions))))) =
     [None]"
  by (simp add: runD newEvents_def) (simp add: state0_def)

text \<open>
  C10. A run of \<^verbatim>\<open>multiInteract\<close> on the caller's options object, whatever it returns or
  throws: the object is afterwards what it was before, as is every object that was in the
  store; the store has one new object, the copy, and \<^verbatim>\<open>maxFee\<close> was set on the copy.
\<close>

theorem multiInteract_leaves_options_unchanged:
  assumes "r < length (heap s)"
    and "multiInteract env this choice cps (Some r) s = (res, s')"
  shows "heap s' ! r = heap s ! r \<and> take (length (heap s)) (heap s') = heap s \<and>
         (\<exists>copy. heap s' = heap s @ [copy] \<and> maxFee copy \<noteq> None)"
proof -
  from multiInteract_effect [OF assms]
  obtain copy where h: "heap s' = heap s @ [copy]" and m: "maxFee copy \<noteq> None"
    by blast
  from h assms(1) have "heap s' ! r = heap s ! r" by (simp add: nth_append)
  moreover from h have "take (length (heap s)) (heap s') = heap s" by simp
  ultimately show ?thesis using h m by blast
qed

theorem multiInteract_leaves_options_unchanged_witness:
  "0 < length (heap (state0 (emptyOptions\<lparr>nonce := Some 7\<rparr>))) \<and>
   fst (multiInteract env0 (OpenZeppelin oz0) INVOKE [] (Some 0) (state0 (emptyOptions\<lparr>nonce := Some 7\<rparr>))) =
     Inr (TxHash ''0x1'') \<and>
   heap (snd (multiInteract env0 (OpenZeppelin oz0) INVOKE [] (Some 0)
                (state0 (emptyOptions\<lparr>nonce := Some 7\<rparr>)))) =
     [\<lparr>maxFee = None, nonce = Some 7, signature = None, rawOutput = None\<rparr>,
      \<lparr>maxFee = Some 0, nonce = None, signature = None, rawOutput = None\<rparr>] \<and>
   heap (snd (multiInteract env0 (OpenZeppelin oz0) INVOKE [] (Some 0)
                (state0 (emptyOptions\<lparr>nonce := Some 7\<rparr>)))) ! 0 =
     heap (state0 (emptyOptions\<lparr>nonce := Some 7\<rparr>)) ! 0"
proof -
  have l: "0 < length (heap (state0 (emptyOptions\<lparr>nonce := Some 7\<rparr>)))"
    by (simp add: state0_def)
  from multiInteract_leaves_options_unchanged [OF l runA]
  have "heap \<lparr>heap = [\<lparr>maxFee = None, nonce = Some 7, signature = None, rawOutput = None\<rparr>,
               \<lparr>maxFee = Some 0, nonce = None, signature = None, rawOutput = None\<rparr>],
        trace = [Interact INVOKE ''0xacc'' ''__execute__''
                   \<lparr>call_array = [], args_calldata = [], args_nonce = ''7''\<rparr>
                   \<lparr>maxFee = Some 0, nonce = None, signature = Some [7, 19], rawOutput = None\<rparr>]\<rparr> ! 0 =
     heap (state0 (emptyOptions\<lparr>nonce := Some 7\<rparr>)) ! 0"
    by blast
  with l show ?thesis by (simp add: runA)
qed

text \<open>
  How \<^verbatim>\<open>multiInteract\<close> resolves the nonce, for every value of the options. When \<^verbatim>\<open>options.nonce\<close> is present and not
  zero, the contract is not asked for its nonce and the arguments that reach the
  interaction command carry the supplied nonce in decimal. When \<^verbatim>\<open>options.nonce\<close> is
  absent or zero, the first call of the run is \<^verbatim>\<open>get_nonce\<close> on the account's contract, and
  the arguments carry the nonce it returned.
\<close>

theorem nonce_resolution:
  assumes r: "r < length (heap s)"
    and run: "multiInteract env this choice cps (Some r) s = (res, s')"
  shows "(\<forall>n. truthy (nonce (heap s ! r)) = Some n \<longrightarrow>
            nonceEvent this \<notin> set (newEvents s s') \<and>
            (\<forall>a\<in>set (dispatchedArgs (newEvents s s')). args_nonce a = toString 10 n)) \<and>
         (truthy (nonce (heap s ! r)) = None \<longrightarrow>
            take 1 (newEvents s s') = [nonceEvent this] \<and>
            (\<forall>n. fst (getNonce env this s) = Inr n \<longrightarrow>
               (\<forall>a\<in>set (dispatchedArgs (newEvents s s')). args_nonce a = toString 10 n)))"
  using run unfolding multiInteract_run [OF r] Let_def fst_getNonce
  by (auto simp: newEvents_def dispatchedArgs_append dispatchedArgs_adaptEvents
      dispatchedArgs_nonceEvent nonceEvent_notin_adaptEvents nonceEvent_ne_Interact
      handleResult_nonce
      split: option.splits sum.splits prod.splits if_splits)

theorem nonce_resolution_witness:
  "0 < length (heap (state0 (emptyOptions\<lparr>nonce := Some 7\<rparr>))) \<and>
   truthy (nonce (heap (state0 (emptyOptions\<lparr>nonce := Some 7\<rparr>)) ! 0)) = Some 7 \<and>
   map args_nonce (dispatchedArgs (newEvents (state0 (emptyOptions\<lparr>nonce := Some 7\<rparr>))
     (snd (multiInteract env0 (OpenZeppelin oz0) INVOKE [] (Some 0)
             (state0 (emptyOptions\<lparr>nonce := Some 7\<rparr>)))))) = [''7''] \<and>
   truthy (nonce (heap (state0 (emptyOptions\<lparr>nonce := Some 0\<rparr>)) ! 0)) = None \<and>
   fst (getNonce env0 (OpenZeppelin oz0) (state0 (emptyOptions\<lparr>nonce := Some 0\<rparr>))) = Inr 5 \<and>
   take 1 (newEvents (state0 (emptyOptions\<lparr>nonce := Some 0\<rparr>))
     (snd (multiInteract env0 (OpenZeppelin oz0) INVOKE [] (Some 0)
             (state0 (emptyOptions\<lparr>nonce := Some 0\<rparr>))))) = [nonceEvent (OpenZeppelin oz0)] \<and>
   map args_nonce (dispatchedArgs (newEvents (state0 (emptyOptions\<lparr>nonce := Some 0\<rparr>))
     (snd (multiInteract env0 (OpenZeppelin oz0) INVOKE [] (Some 0)
             (state0 (emptyOptions\<lparr>nonce := Some 0\<rparr>)))))) = [''5'']"
proof -
  let ?a = "state0 (emptyOptions\<lparr>nonce := Some 7\<rparr>)"
  let ?c = "state0 (emptyOptions\<lparr>nonce := Some 0\<rparr>)"
  have la: "0 < length (heap ?a)" and lc: "0 < length (heap ?c)"
    by (simp_all add: state0_def)
  have ta: "truthy (nonce (heap ?a ! 0)) = Some 7" and tc: "truthy (nonce (heap ?c ! 0)) = None"
    by (simp_all add: state0_def emptyOptions_def truthy_def)
  have g: "fst (getNonce env0 (OpenZeppelin oz0) ?c) = Inr 5"
    by (simp add: env0_simps)
  from nonce_resolution [OF lc runC] tc
  have first: "take 1 (newEvents ?c
        \<lparr>heap = [\<lparr>maxFee = None, nonce = Some 0, signature = None, rawOutput = None\<rparr>,
                 \<lparr>maxFee = Some 0, nonce = None, signature = None, rawOutput = None\<rparr>],
          trace = [ContractCall ''0xacc'' ''get_nonce'',
                   Interact INVOKE ''0xacc'' ''__execute__''
                     \<lparr>call_array = [], args_calldata = [], args_nonce = ''5''\<rparr>
                     \<lparr>maxFee = Some 0, nonce = None, signature = Some [7, 19], rawOutput = None\<rparr>]\<rparr>) =
      [nonceEvent (OpenZeppelin oz0)]"
    by blast
  have da: "map args_nonce (dispatchedArgs (newEvents ?a
     (snd (multiInteract env0 (OpenZeppelin oz0) INVOKE [] (Some 0) ?a)))) = [''7'']"
    by (simp add: runA newEvents_def) (simp add: state0_def)
  have dc: "map args_nonce (dispatchedArgs (newEvents ?c
     (snd (multiInteract env0 (OpenZeppelin oz0) INVOKE [] (Some 0) ?c)))) = [''5'']"
    by (simp add: runC newEvents_def) (simp add: state0_def)
  from la ta tc g first da dc show ?thesis by (simp add: runC)
qed

end
